theory Spec2Isabelle
  imports Complex_Main "HOL-Library.Sublist"
begin

section \<open>JavaScript strings\<close>

text \<open>
  A JavaScript string is a sequence of UTF-16 code units. Every character the program
  looks for lies in the Basic Multilingual Plane, and its regular expressions carry no
  \<open>u\<close> flag, so one code unit is one character everywhere. A code unit is a natural
  number; \<open>js\<close> turns an ASCII literal into code units.
\<close>

type_synonym jstr = "nat list"

definition js :: "string \<Rightarrow> jstr" where
  "js s = map of_char s"

text \<open>\<open>s.indexOf(sub)\<close>: the first index at which \<open>sub\<close> starts, \<open>None\<close> for -1.\<close>

fun indexOf :: "jstr \<Rightarrow> jstr \<Rightarrow> nat option" where
  "indexOf [] sub = (if sub = [] then Some 0 else None)"
| "indexOf (c # cs) sub =
     (if prefix sub (c # cs) then Some 0 else map_option Suc (indexOf cs sub))"

definition includesStr :: "jstr \<Rightarrow> jstr \<Rightarrow> bool" where
  "includesStr s sub = (indexOf s sub \<noteq> None)"

text \<open>
  \<open>s.substring(a, b)\<close> and \<open>s.substring(a)\<close>: both arguments are clamped to
  \<open>[0, length]\<close> and swapped when \<open>a > b\<close>.
\<close>

definition clampIndex :: "jstr \<Rightarrow> int \<Rightarrow> nat" where
  "clampIndex s a = (if a < 0 then 0 else min (nat a) (length s))"

definition substring :: "jstr \<Rightarrow> int \<Rightarrow> int \<Rightarrow> jstr" where
  "substring s a b =
     (let a' = clampIndex s a; b' = clampIndex s b;
          lo = min a' b'; hi = max a' b'
      in take (hi - lo) (drop lo s))"


section \<open>Run-safe substitution: \<open>safeReplaceInXml\<close>\<close>

text \<open>
  The function splits the document with \<open>paraRegex\<close> into paragraphs and, inside a
  paragraph, finds the \<open>w:t\<close> elements with \<open>wtRegex\<close>. The model starts from that
  tokenised form: a paragraph is the list of its pieces in document order, a piece
  being either a \<open>w:t\<close> element (its attribute text and its character data) or any
  other markup, kept verbatim. A document is a list of paragraphs and of the text
  between them.
\<close>

datatype item = Markup jstr | WT jstr jstr



text \<open>The \<open>while ((m = wtRegex.exec(paraXml)) !== null)\<close> loop.\<close>

fun collectWt :: "nat \<Rightarrow> item list \<Rightarrow> (jstr \<times> jstr \<times> nat) list" where
  "collectWt i [] = []"
| "collectWt i (Markup m # rest) = collectWt (Suc i) rest"
| "collectWt i (WT a t # rest) = (a, t, i) # collectWt (Suc i) rest"












text \<open>The runs of a paragraph, as (attributes, text) pairs in order.\<close>

definition runsAt :: "nat \<Rightarrow> item list \<Rightarrow> (jstr \<times> jstr) list" where
  "runsAt k para = map (\<lambda>(a, t, i). (a, t)) (collectWt k para)"





definition textsOf :: "(jstr \<times> jstr \<times> nat) list \<Rightarrow> jstr list" where
  "textsOf ws = map (\<lambda>(a, t, i). t) ws"



section \<open>Receipt page: OCR words, page scoring and page search\<close>

text \<open>
  A word of the OCR output: pixel bounding box and text. The coordinates are read
  from the hOCR \<open>bbox\<close> attribute with \<open>\d+\<close>, so they are integers.
\<close>

record ocr_word =
  x1 :: int
  y1 :: int
  x2 :: int
  y2 :: int
  word_text :: jstr

text \<open>What \<open>runOcr\<close> returns for a page.\<close>

record ocr_result =
  words :: "ocr_word list"
  imgWidth :: int
  imgHeight :: int

text \<open>The words the program looks for, as code units.\<close>

definition kJu :: jstr where "kJu = [0x53D7]"
definition kRyou :: jstr where "kRyou = [0x9818]"
definition kJuryou :: jstr where "kJuryou = [0x53D7, 0x9818]"
definition kJuryousho :: jstr where "kJuryousho = [0x53D7, 0x9818, 0x66F8]"
definition kReiwa :: jstr where "kReiwa = [0x4EE4, 0x548C]"
definition kDairinin :: jstr where "kDairinin = [0x4EE3, 0x7406, 0x4EBA]"
definition kGyou :: jstr where "kGyou = [0x884C]"
definition kBengo :: jstr where "kBengo = [0x5F01, 0x8B77]"
definition kGoshi :: jstr where "kGoshi = [0x8B77, 0x58EB]"
definition kSensei :: jstr where "kSensei = [0x5148, 0x751F]"

text \<open>\<open>Array.prototype.find\<close>.\<close>

fun findFirst :: "('a \<Rightarrow> bool) \<Rightarrow> 'a list \<Rightarrow> 'a option" where
  "findFirst P [] = None"
| "findFirst P (x # xs) = (if P x then Some x else findFirst P xs)"

text \<open>\<open>findReceiptLabel\<close> returns \<open>{ found, y }\<close>, with \<open>y\<close> null when nothing is found.\<close>

record receipt_label =
  found :: bool
  label_y :: "int option"

text \<open>The \<open>for (const ju of juWords)\<close> loop of \<open>findReceiptLabel\<close>.\<close>

fun findSplitLabel :: "ocr_word list \<Rightarrow> ocr_word list \<Rightarrow> receipt_label" where
  "findSplitLabel ws [] = \<lparr>found = False, label_y = None\<rparr>"
| "findSplitLabel ws (ju # rest) =
     (case findFirst (\<lambda>w. word_text w = kRyou \<and> \<bar>y1 w - y1 ju\<bar> < 50
                              \<and> x1 w > x1 ju \<and> x1 w < x1 ju + 300) ws of
        Some ryou \<Rightarrow> \<lparr>found = True, label_y = Some (y1 ju)\<rparr>
      | None \<Rightarrow> findSplitLabel ws rest)"

definition findReceiptLabel :: "ocr_word list \<Rightarrow> receipt_label" where
  "findReceiptLabel ws =
     (case findFirst (\<lambda>w. includesStr (word_text w) kJuryousho \<or> includesStr (word_text w) kJuryou) ws of
        Some direct \<Rightarrow> \<lparr>found = True, label_y = Some (y1 direct)\<rparr>
      | None \<Rightarrow> findSplitLabel ws (filter (\<lambda>w. word_text w = kJu) ws))"

definition scoreReceiptPage :: "ocr_word list \<Rightarrow> int" where
  "scoreReceiptPage ws =
     (let allText = concat (map word_text ws);
          s0 = (0::int);
          s1 = (if found (findReceiptLabel ws) then s0 + 50 else s0);
          s2 = (if includesStr allText kReiwa then s1 + 10 else s1);
          s3 = (if includesStr allText kDairinin then s2 + 10 else s2);
          s4 = (if length ws > 200 then s3 - 20 else s3);
          s5 = (if length ws > 300 then s4 - 20 else s4)
      in s5)"

text \<open>
  \<open>findReceiptPage\<close>. \<open>runOcr\<close> rasterises a page and runs the OCR engine; it is the
  external collaborator and is a parameter here, a function from the page number to
  the result. The model also returns the pages handed to \<open>runOcr\<close>, in the order of
  the calls, so that "no further page is evaluated" can be stated.

  The loop variables \<open>bestPageNum\<close>, \<open>bestOcr\<close> and \<open>bestScore\<close> start as 1, null and
  \<open>-Infinity\<close>; \<open>None\<close> stands for null and for \<open>-Infinity\<close>.
\<close>

record scan_state =
  bestPageNum :: nat
  bestOcr :: "ocr_result option"
  bestScore :: "int option"

definition scanOrder :: "nat \<Rightarrow> nat list" where
  "scanOrder totalPages = [1, totalPages] @ [2..<totalPages]"

definition exceeds :: "int \<Rightarrow> int option \<Rightarrow> bool" where
  "exceeds score best = (case best of None \<Rightarrow> True | Some b \<Rightarrow> score > b)"

fun scanLoop ::
  "(nat \<Rightarrow> ocr_result) \<Rightarrow> nat list \<Rightarrow> scan_state \<Rightarrow> nat list
     \<Rightarrow> nat \<times> ocr_result option \<times> nat list" where
  "scanLoop runOcr [] st scanned = (bestPageNum st, bestOcr st, scanned)"
| "scanLoop runOcr (p # ps) st scanned =
     (let ocr = runOcr p;
          score = scoreReceiptPage (words ocr);
          st' = (if exceeds score (bestScore st)
                 then \<lparr>bestPageNum = p, bestOcr = Some ocr, bestScore = Some score\<rparr>
                 else st)
      in if score \<ge> 50 then (p, Some ocr, scanned @ [p])
         else scanLoop runOcr ps st' (scanned @ [p]))"

definition findReceiptPage ::
  "(nat \<Rightarrow> ocr_result) \<Rightarrow> nat \<Rightarrow> nat \<times> ocr_result option \<times> nat list" where
  "findReceiptPage runOcr totalPages =
     (if totalPages = 1 then (1, Some (runOcr 1), [1])
      else scanLoop runOcr (scanOrder totalPages)
             \<lparr>bestPageNum = 1, bestOcr = None, bestScore = None\<rparr> [])"

text \<open>The score of a page, as the loop computes it.\<close>

definition pageScore :: "(nat \<Rightarrow> ocr_result) \<Rightarrow> nat \<Rightarrow> int" where
  "pageScore runOcr p = scoreReceiptPage (words (runOcr p))"

section \<open>Anchor detection: the strike target\<close>

definition findReceiptSectionStart :: "ocr_word list \<Rightarrow> int \<Rightarrow> int" where
  "findReceiptSectionStart ws imgH =
     (let receiptLabel = findReceiptLabel ws in
      case label_y receiptLabel of
        Some y \<Rightarrow> (if found receiptLabel then max 0 (y - 50) else 0)
      | None \<Rightarrow> 0)"

text \<open>\<open>xs.reduce(f)\<close> without an initial value, on an array known to be non-empty.\<close>

definition reduce1 :: "('a \<Rightarrow> 'a \<Rightarrow> 'a) \<Rightarrow> 'a list \<Rightarrow> 'a" where
  "reduce1 f xs = foldl f (hd xs) (tl xs)"

text \<open>
  Step 1 of \<open>detectPositions\<close>: the word \<open>gyouWord\<close>, null (\<open>None\<close>) when the receipt
  section has no word whose text is the target word.
\<close>

definition receiptWords :: "ocr_word list \<Rightarrow> int \<Rightarrow> ocr_word list" where
  "receiptWords ws imgH = filter (\<lambda>w. y1 w \<ge> findReceiptSectionStart ws imgH) ws"

definition detectGyouWord :: "ocr_word list \<Rightarrow> int \<Rightarrow> ocr_word option" where
  "detectGyouWord ws imgH =
     (let rw = receiptWords ws imgH;
          allGyouWords = filter (\<lambda>w. word_text w = kGyou) rw
      in if length allGyouWords > 0 then
           (let bengoWordInReceipt =
                  findFirst (\<lambda>w. includesStr (word_text w) kBengo \<or> includesStr (word_text w) kGoshi) rw;
                gyouWord1 =
                  (case bengoWordInReceipt of
                     Some bengo \<Rightarrow>
                       (let bengoY = y1 bengo;
                            gyouInBengoLine = filter (\<lambda>w. \<bar>y1 w - bengoY\<bar> < 60) allGyouWords
                        in if length gyouInBengoLine > 0
                           then Some (reduce1 (\<lambda>a b. if x1 a > x1 b then a else b) gyouInBengoLine)
                           else None)
                   | None \<Rightarrow> None)
            in case gyouWord1 of
                 Some g \<Rightarrow> Some g
               | None \<Rightarrow> Some (reduce1 (\<lambda>a b. if y1 a < y1 b then a else b) allGyouWords))
         else None)"

text \<open>
  The \<open>gyou\<close> field of the object \<open>detectPositions\<close> returns, and \<open>px2pdf\<close>. The
  program computes the coordinates in floating point; the model computes them in the
  reals. Nothing below depends on their values, only on whether the field is null.
\<close>

record gyou_pdf =
  g_left_x :: real
  g_left_y :: real
  g_right_x :: real
  g_right_y :: real
  g_top :: real
  g_width :: real
  g_height :: real
  pxY1 :: int

definition px2pdf :: "real \<Rightarrow> real \<Rightarrow> real \<Rightarrow> real \<Rightarrow> real \<Rightarrow> real \<Rightarrow> real \<times> real" where
  "px2pdf px py imgW imgH pgW pgH = (px * pgW / imgW, pgH - (py * pgH / imgH))"

definition gyouPdfOf :: "ocr_word \<Rightarrow> real \<Rightarrow> real \<Rightarrow> real \<Rightarrow> real \<Rightarrow> gyou_pdf" where
  "gyouPdfOf g imgW imgH pgW pgH =
     \<lparr>g_left_x = fst (px2pdf (of_int (x1 g)) (of_int (y2 g)) imgW imgH pgW pgH),
      g_left_y = snd (px2pdf (of_int (x1 g)) (of_int (y2 g)) imgW imgH pgW pgH),
      g_right_x = fst (px2pdf (of_int (x2 g)) (of_int (y2 g)) imgW imgH pgW pgH),
      g_right_y = snd (px2pdf (of_int (x2 g)) (of_int (y2 g)) imgW imgH pgW pgH),
      g_top = snd (px2pdf (of_int (x1 g)) (of_int (y1 g)) imgW imgH pgW pgH),
      g_width = of_int (x2 g - x1 g) * pgW / imgW,
      g_height = of_int (y2 g - y1 g) * pgH / imgH,
      pxY1 = y1 g\<rparr>"

definition detectPositions_gyou ::
  "ocr_word list \<Rightarrow> int \<Rightarrow> int \<Rightarrow> real \<Rightarrow> real \<Rightarrow> gyou_pdf option" where
  "detectPositions_gyou ws imgW imgH pgW pgH =
     (case detectGyouWord ws imgH of
        Some gyouWord \<Rightarrow> Some (gyouPdfOf gyouWord (of_int imgW) (of_int imgH) pgW pgH)
      | None \<Rightarrow> None)"

text \<open>
  Step 1 of \<open>generateReceipt\<close>: what is drawn on the page for the strike target. The
  width of the glyph in the embedded font, \<open>font.widthOfTextAtSize\<close>, is a parameter.
\<close>

datatype draw_op =
    DrawLine real real real real
  | DrawText jstr real real

definition strikeStep :: "gyou_pdf option \<Rightarrow> real \<Rightarrow> draw_op list" where
  "strikeStep pos_gyou gyouCharW =
     (case pos_gyou of
        Some g \<Rightarrow>
          (let fs = 10.5;
               strikeW = min (g_width g) gyouCharW;
               midY = g_left_y g + fs * 0.40;
               lx1 = g_left_x g;
               lx2 = g_left_x g + strikeW;
               senseiX = g_right_x g + 2
           in [DrawLine lx1 (midY + 1.5) lx2 (midY + 1.5),
               DrawLine lx1 (midY - 1.5) lx2 (midY - 1.5),
               DrawText kSensei senseiX (g_left_y g)])
      | None \<Rightarrow> [])"

text \<open>The loop invariant: what the three loop variables hold after the pages \<open>seen\<close>.\<close>

definition bestOf :: "(nat \<Rightarrow> ocr_result) \<Rightarrow> nat list \<Rightarrow> scan_state \<Rightarrow> bool" where
  "bestOf runOcr seen st =
     (if seen = [] then bestScore st = None
      else bestPageNum st \<in> set seen
         \<and> bestOcr st = Some (runOcr (bestPageNum st))
         \<and> bestScore st = Some (pageScore runOcr (bestPageNum st))
         \<and> (\<forall>q\<in>set seen. pageScore runOcr q \<le> pageScore runOcr (bestPageNum st)))"

text \<open>
  Test inputs. A page whose receipt section holds near misses of the target word but
  not the word itself, a page that holds it twice, a five-page document whose fourth
  page alone carries the receipt label, and one in which no page does.
\<close>

definition mkWord :: "int \<Rightarrow> int \<Rightarrow> jstr \<Rightarrow> ocr_word" where
  "mkWord x y t = \<lparr>x1 = x, y1 = y, x2 = x + 40, y2 = y + 40, word_text = t\<rparr>"

definition exNearMiss :: "ocr_word list" where
  "exNearMiss = [mkWord 100 100 kJuryousho, mkWord 300 400 [0x6BBF],
                 mkWord 100 500 [0x884C, 0x653F], mkWord 200 500 [0x9280, 0x884C]]"

definition exGyou :: "ocr_word list" where
  "exGyou = [mkWord 100 100 kJuryousho, mkWord 100 300 (kBengo @ [0x58EB]),
             mkWord 400 310 kGyou, mkWord 100 500 kGyou]"

definition exOcr :: "nat \<Rightarrow> ocr_result" where
  "exOcr p = \<lparr>words = (if p = 4 then [mkWord 100 100 kJuryousho] else []),
             imgWidth = 2480, imgHeight = 3508\<rparr>"

definition exOcrNone :: "nat \<Rightarrow> ocr_result" where
  "exOcrNone p = \<lparr>words = (if p = 3 then [mkWord 100 100 kReiwa] else []),
             imgWidth = 2480, imgHeight = 3508\<rparr>"


section \<open>Regular expressions\<close>

text \<open>
  The extraction code is written with JavaScript regular expressions. They are
  embedded as terms of a datatype, one constructor per construct the program uses, and
  matched by a backtracking matcher in continuation-passing style that follows the
  matcher of the ECMAScript specification: a matcher takes a state and a continuation
  and returns the final state or failure; alternatives are tried left to right;
  a quantifier tries one more iteration first when greedy and the continuation first
  when lazy.

  A character class is a list of inclusive ranges of code units.
\<close>

datatype rx =
    Chr nat
  | Cls "(nat \<times> nat) list"
  | NCls "(nat \<times> nat) list"
  | Eps
  | Seq rx rx
  | Alt rx rx
  | Rep bool nat "nat option" rx
  | Grp nat rx
  | NegLook rx
  | Bol
  | Eol

text \<open>
  \<open>Rep greedy min max r\<close> is \<open>r{min,max}\<close>, with \<open>max = None\<close> for no upper bound
  and \<open>greedy = False\<close> for the lazy form \<open>r{min,max}?\<close>. \<open>Grp k r\<close> is the capturing
  group number \<open>k\<close>; a non-capturing group is its body. \<open>NegLook r\<close> is \<open>(?!r)\<close>.
  \<open>Bol\<close> and \<open>Eol\<close> are \<open>^\<close> and \<open>$\<close> without the \<open>m\<close> flag.

  The state of a match: the index reached, the input from that index on, and the
  captures, each a pair of start and end index.
\<close>

type_synonym caps = "nat \<Rightarrow> (nat \<times> nat) option"
type_synonym mstate = "nat \<times> jstr \<times> caps"
type_synonym cont = "mstate \<Rightarrow> mstate option"

fun inCls :: "(nat \<times> nat) list \<Rightarrow> nat \<Rightarrow> bool" where
  "inCls [] ch = False"
| "inCls ((lo, hi) # rs) ch = ((lo \<le> ch \<and> ch \<le> hi) \<or> inCls rs ch)"

fun groupsOf :: "rx \<Rightarrow> nat list" where
  "groupsOf (Seq a b) = groupsOf a @ groupsOf b"
| "groupsOf (Alt a b) = groupsOf a @ groupsOf b"
| "groupsOf (Rep g mn mx r) = groupsOf r"
| "groupsOf (Grp k r) = k # groupsOf r"
| "groupsOf (NegLook r) = groupsOf r"
| "groupsOf r = []"

text \<open>At the start of every iteration of a quantifier the captures inside it are reset.\<close>

fun clearCaps :: "nat list \<Rightarrow> mstate \<Rightarrow> mstate" where
  "clearCaps ks (p, rest, cs) = (p, rest, (\<lambda>k. if k \<in> set ks then None else cs k))"

text \<open>
  RepeatMatcher. The first number is the upper bound that is left; the matcher for an
  unbounded quantifier starts it at \<open>min\<close> plus the length of the remaining input,
  which no run of iterations can exceed, because once \<open>min\<close> is used up an iteration
  that consumes nothing is rejected.
\<close>

fun repM ::
  "(cont \<Rightarrow> mstate \<Rightarrow> mstate option) \<Rightarrow> bool \<Rightarrow> nat \<Rightarrow> nat \<Rightarrow> cont \<Rightarrow> mstate \<Rightarrow> mstate option" where
  "repM m greedy 0 mn c (p, rest, cs) = c (p, rest, cs)"
| "repM m greedy (Suc k) mn c (p, rest, cs) =
     (if mn \<noteq> 0 then
        m (\<lambda>y. repM m greedy k (mn - 1) c y) (p, rest, cs)
      else if greedy then
        (case m (\<lambda>y. if fst y = p then None else repM m greedy k 0 c y) (p, rest, cs) of
           Some z \<Rightarrow> Some z
         | None \<Rightarrow> c (p, rest, cs))
      else
        (case c (p, rest, cs) of
           Some z \<Rightarrow> Some z
         | None \<Rightarrow> m (\<lambda>y. if fst y = p then None else repM m greedy k 0 c y) (p, rest, cs)))"

fun rmatch :: "rx \<Rightarrow> cont \<Rightarrow> mstate \<Rightarrow> mstate option" where
  "rmatch (Chr a) c (p, rest, cs) =
     (case rest of [] \<Rightarrow> None | x # xs \<Rightarrow> if x = a then c (Suc p, xs, cs) else None)"
| "rmatch (Cls rs) c (p, rest, cs) =
     (case rest of [] \<Rightarrow> None | x # xs \<Rightarrow> if inCls rs x then c (Suc p, xs, cs) else None)"
| "rmatch (NCls rs) c (p, rest, cs) =
     (case rest of [] \<Rightarrow> None | x # xs \<Rightarrow> if inCls rs x then None else c (Suc p, xs, cs))"
| "rmatch Eps c (p, rest, cs) = c (p, rest, cs)"
| "rmatch (Seq a b) c (p, rest, cs) = rmatch a (\<lambda>y. rmatch b c y) (p, rest, cs)"
| "rmatch (Alt a b) c (p, rest, cs) =
     (case rmatch a c (p, rest, cs) of Some z \<Rightarrow> Some z | None \<Rightarrow> rmatch b c (p, rest, cs))"
| "rmatch (Rep greedy mn mx r) c (p, rest, cs) =
     repM (\<lambda>d y. rmatch r d (clearCaps (groupsOf r) y)) greedy
       (case mx of Some k \<Rightarrow> k | None \<Rightarrow> mn + length rest) mn c (p, rest, cs)"
| "rmatch (Grp k r) c (p, rest, cs) =
     rmatch r (\<lambda>(p', rest', cs'). c (p', rest', cs'(k \<mapsto> (p, p')))) (p, rest, cs)"
| "rmatch (NegLook r) c (p, rest, cs) =
     (case rmatch r Some (p, rest, cs) of Some z \<Rightarrow> None | None \<Rightarrow> c (p, rest, cs))"
| "rmatch Bol c (p, rest, cs) = (if p = 0 then c (p, rest, cs) else None)"
| "rmatch Eol c (p, rest, cs) = (if rest = [] then c (p, rest, cs) else None)"

text \<open>Shorthands: a literal string, a sequence, an alternation, \<open>*\<close>, \<open>+\<close> and \<open>?\<close>.\<close>

fun lit :: "jstr \<Rightarrow> rx" where
  "lit [] = Eps"
| "lit [a] = Chr a"
| "lit (a # b # bs) = Seq (Chr a) (lit (b # bs))"

fun seqs :: "rx list \<Rightarrow> rx" where
  "seqs [] = Eps"
| "seqs [r] = r"
| "seqs (r # q # rs) = Seq r (seqs (q # rs))"

fun alts :: "rx list \<Rightarrow> rx" where
  "alts [] = NCls [(0, 65535)]"
| "alts [r] = r"
| "alts (r # q # rs) = Alt r (alts (q # rs))"

definition Star :: "rx \<Rightarrow> rx" where "Star r = Rep True 0 None r"
definition Plus :: "rx \<Rightarrow> rx" where "Plus r = Rep True 1 None r"
definition Opt :: "rx \<Rightarrow> rx" where "Opt r = Rep True 0 (Some 1) r"

text \<open>The class escapes: \<open>\s\<close>, \<open>\d\<close>, \<open>[\s\S]\<close>, and \<open>.\<close> (anything but a line terminator).\<close>

definition wsR :: "(nat \<times> nat) list" where
  "wsR = [(9, 13), (32, 32), (160, 160), (0x1680, 0x1680), (0x2000, 0x200A),
          (0x2028, 0x2029), (0x202F, 0x202F), (0x205F, 0x205F), (0x3000, 0x3000),
          (0xFEFF, 0xFEFF)]"

definition digitR :: "(nat \<times> nat) list" where "digitR = [(48, 57)]"

definition isSpace :: "nat \<Rightarrow> bool" where "isSpace ch = inCls wsR ch"

definition rxS :: rx where "rxS = Star (Cls wsR)"
definition rxD1 :: rx where "rxD1 = Plus (Cls digitR)"
definition rxAny :: rx where "rxAny = NCls []"
definition rxDot :: rx where "rxDot = NCls [(10, 10), (13, 13), (0x2028, 0x2029)]"
definition rxNotNl :: rx where "rxNotNl = NCls [(10, 10)]"

text \<open>
  The result of a successful \<open>exec\<close>: \<open>index\<close>, the end of the match (the new
  \<open>lastIndex\<close> of a global expression), the input after it, and the captures.
\<close>

record rmatch_result =
  m_index :: nat
  m_end :: nat
  m_rest :: jstr
  m_caps :: caps

text \<open>
  \<open>search r p rest\<close> is \<open>exec\<close> with \<open>lastIndex = p\<close>, \<open>rest\<close> being the input from
  \<open>p\<close> on: the leftmost start from \<open>p\<close> at which the expression matches.
\<close>

fun search :: "rx \<Rightarrow> nat \<Rightarrow> jstr \<Rightarrow> rmatch_result option" where
  "search r p [] =
     (case rmatch r Some (p, [], Map.empty) of
        Some (e, rest', cs) \<Rightarrow> Some \<lparr>m_index = p, m_end = e, m_rest = rest', m_caps = cs\<rparr>
      | None \<Rightarrow> None)"
| "search r p (x # xs) =
     (case rmatch r Some (p, x # xs, Map.empty) of
        Some (e, rest', cs) \<Rightarrow> Some \<lparr>m_index = p, m_end = e, m_rest = rest', m_caps = cs\<rparr>
      | None \<Rightarrow> search r (Suc p) xs)"

text \<open>\<open>str.match(re)\<close> for an expression without the \<open>g\<close> flag, and \<open>re.test(str)\<close>.\<close>

definition matchRx :: "rx \<Rightarrow> jstr \<Rightarrow> rmatch_result option" where
  "matchRx r s = search r 0 s"

definition testRx :: "rx \<Rightarrow> jstr \<Rightarrow> bool" where
  "testRx r s = (search r 0 s \<noteq> None)"

text \<open>
  The loop \<open>while ((m = re.exec(text)) !== null) { ... }\<close> over a global expression:
  the list of the results. Each \<open>exec\<close> starts at the end of the match before. A match
  of length zero leaves \<open>lastIndex\<close> where it is, the next \<open>exec\<close> finds the same match
  and the loop never ends: the model returns \<open>None\<close> then. The first argument bounds
  the number of calls of \<open>exec\<close>; \<open>execAll\<close> passes the length of the text plus one,
  which is enough whenever every match consumes a character, and which is used up
  exactly when the loop of the program does not end.
\<close>

fun execLoop :: "nat \<Rightarrow> rx \<Rightarrow> nat \<Rightarrow> jstr \<Rightarrow> rmatch_result list option" where
  "execLoop 0 r p rest = None"
| "execLoop (Suc n) r p rest =
     (case search r p rest of
        None \<Rightarrow> Some []
      | Some m \<Rightarrow> map_option ((#) m) (execLoop n r (m_end m) (m_rest m)))"

definition execAll :: "rx \<Rightarrow> jstr \<Rightarrow> rmatch_result list option" where
  "execAll r s = execLoop (Suc (length s)) r 0 s"

text \<open>\<open>m[0]\<close> and \<open>m[k]\<close> of a result on the input \<open>s\<close>; \<open>None\<close> is \<open>undefined\<close>.\<close>

definition matched :: "jstr \<Rightarrow> rmatch_result \<Rightarrow> jstr" where
  "matched s m = take (m_end m - m_index m) (drop (m_index m) s)"

definition group :: "jstr \<Rightarrow> rmatch_result \<Rightarrow> nat \<Rightarrow> jstr option" where
  "group s m k = (case m_caps m k of
                    None \<Rightarrow> None
                  | Some (a, b) \<Rightarrow> Some (take (b - a) (drop a s)))"

text \<open>\<open>m[k]\<close> where the program uses it as a string.\<close>

definition groupStr :: "jstr \<Rightarrow> rmatch_result \<Rightarrow> nat \<Rightarrow> jstr" where
  "groupStr s m k = (case group s m k of None \<Rightarrow> [] | Some g \<Rightarrow> g)"

text \<open>
  \<open>s.replace(re, f)\<close> for an expression without the \<open>g\<close> flag: the first match is
  replaced by what \<open>f\<close> returns for it.
\<close>

definition replaceFirst :: "rx \<Rightarrow> (rmatch_result \<Rightarrow> jstr) \<Rightarrow> jstr \<Rightarrow> jstr" where
  "replaceFirst r f s =
     (case matchRx r s of
        None \<Rightarrow> s
      | Some m \<Rightarrow> take (m_index m) s @ f m @ drop (m_end m) s)"

text \<open>
  \<open>s.replace(/\s+/g, '')\<close> deletes every white-space character, and \<open>s.trim()\<close> the
  white space at both ends; the white space of \<open>trim\<close> is that of \<open>\s\<close>.
\<close>

definition stripSpaces :: "jstr \<Rightarrow> jstr" where
  "stripSpaces s = filter (\<lambda>ch. \<not> isSpace ch) s"

definition trim :: "jstr \<Rightarrow> jstr" where
  "trim s = rev (dropWhile isSpace (rev (dropWhile isSpace s)))"

text \<open>
  Static summaries of an expression, used in the proofs: whether it can match the
  empty string, the characters a match can begin with, the characters a match can
  contain, a lower bound on its length, and the characters the capture \<open>k\<close> can
  contain. A look-ahead consumes nothing, so it adds nothing to a match.
\<close>

fun nullable :: "rx \<Rightarrow> bool" where
  "nullable (Chr a) = False"
| "nullable (Cls rs) = False"
| "nullable (NCls rs) = False"
| "nullable Eps = True"
| "nullable (Seq a b) = (nullable a \<and> nullable b)"
| "nullable (Alt a b) = (nullable a \<or> nullable b)"
| "nullable (Rep g mn mx r) = (mn = 0 \<or> mx = Some 0 \<or> nullable r)"
| "nullable (Grp k r) = nullable r"
| "nullable (NegLook r) = True"
| "nullable Bol = True"
| "nullable Eol = True"

fun firstOK :: "rx \<Rightarrow> nat \<Rightarrow> bool" where
  "firstOK (Chr a) ch = (ch = a)"
| "firstOK (Cls rs) ch = inCls rs ch"
| "firstOK (NCls rs) ch = (\<not> inCls rs ch)"
| "firstOK Eps ch = False"
| "firstOK (Seq a b) ch = (firstOK a ch \<or> (nullable a \<and> firstOK b ch))"
| "firstOK (Alt a b) ch = (firstOK a ch \<or> firstOK b ch)"
| "firstOK (Rep g mn mx r) ch = firstOK r ch"
| "firstOK (Grp k r) ch = firstOK r ch"
| "firstOK (NegLook r) ch = False"
| "firstOK Bol ch = False"
| "firstOK Eol ch = False"

fun alpha :: "rx \<Rightarrow> nat \<Rightarrow> bool" where
  "alpha (Chr a) ch = (ch = a)"
| "alpha (Cls rs) ch = inCls rs ch"
| "alpha (NCls rs) ch = (\<not> inCls rs ch)"
| "alpha Eps ch = False"
| "alpha (Seq a b) ch = (alpha a ch \<or> alpha b ch)"
| "alpha (Alt a b) ch = (alpha a ch \<or> alpha b ch)"
| "alpha (Rep g mn mx r) ch = alpha r ch"
| "alpha (Grp k r) ch = alpha r ch"
| "alpha (NegLook r) ch = False"
| "alpha Bol ch = False"
| "alpha Eol ch = False"

fun minLen :: "rx \<Rightarrow> nat" where
  "minLen (Chr a) = 1"
| "minLen (Cls rs) = 1"
| "minLen (NCls rs) = 1"
| "minLen Eps = 0"
| "minLen (Seq a b) = minLen a + minLen b"
| "minLen (Alt a b) = min (minLen a) (minLen b)"
| "minLen (Rep g mn mx r) = (if mx = Some 0 \<or> mn = 0 then 0 else minLen r)"
| "minLen (Grp k r) = minLen r"
| "minLen (NegLook r) = 0"
| "minLen Bol = 0"
| "minLen Eol = 0"

fun galpha :: "rx \<Rightarrow> nat \<Rightarrow> nat \<Rightarrow> bool" where
  "galpha (Seq a b) k ch = (galpha a k ch \<or> galpha b k ch)"
| "galpha (Alt a b) k ch = (galpha a k ch \<or> galpha b k ch)"
| "galpha (Rep g mn mx r) k ch = galpha r k ch"
| "galpha (Grp j r) k ch = ((j = k \<and> alpha r ch) \<or> galpha r k ch)"
| "galpha (NegLook r) k ch = galpha r k ch"
| "galpha r k ch = False"

text \<open>
  The relation between the state a matcher starts in and a state it hands to its
  continuation: the characters consumed in between are in the set \<open>A\<close> and at least \<open>n\<close>
  in number, and a capture either is what it was or is one of \<open>ks\<close>, lies between the
  two states and holds characters of \<open>G k\<close> only.
\<close>

definition capOK :: "(nat \<Rightarrow> bool) \<Rightarrow> nat \<Rightarrow> jstr \<Rightarrow> (nat \<times> nat) option \<Rightarrow> bool" where
  "capOK G p w v =
     (case v of None \<Rightarrow> True
      | Some (a, b) \<Rightarrow> p \<le> a \<and> a \<le> b \<and> b \<le> p + length w
                       \<and> (\<forall>ch\<in>set (take (b - a) (drop (a - p) w)). G ch))"

definition span ::
  "(nat \<Rightarrow> bool) \<Rightarrow> nat \<Rightarrow> nat list \<Rightarrow> (nat \<Rightarrow> nat \<Rightarrow> bool) \<Rightarrow> mstate \<Rightarrow> mstate \<Rightarrow> bool" where
  "span A n ks G x y =
     (\<exists>w. fst (snd x) = w @ fst (snd y) \<and> fst y = fst x + length w
          \<and> (\<forall>ch\<in>set w. A ch) \<and> n \<le> length w
          \<and> (\<forall>k. snd (snd y) k = snd (snd x) k
                 \<or> (k \<in> set ks \<and> capOK (G k) (fst x) w (snd (snd y) k))))"

definition spanOK :: "rx \<Rightarrow> mstate \<Rightarrow> mstate \<Rightarrow> bool" where
  "spanOK r x y = span (alpha r) (minLen r) (groupsOf r) (galpha r) x y"

text \<open>What a result of \<open>exec\<close> on the text \<open>s\<close> satisfies, whatever the expression.\<close>

definition resultOK :: "rx \<Rightarrow> jstr \<Rightarrow> nat \<Rightarrow> rmatch_result \<Rightarrow> bool" where
  "resultOK r s p m =
     (p \<le> m_index m \<and> m_index m + minLen r \<le> m_end m \<and> m_end m \<le> length s
      \<and> m_rest m = drop (m_end m) s
      \<and> (\<forall>ch\<in>set (matched s m). alpha r ch)
      \<and> (\<forall>k g. group s m k = Some g \<longrightarrow> (\<forall>ch\<in>set g. galpha r k ch)))"

section \<open>Field extraction: \<open>extractInfoFromText\<close>\<close>

text \<open>
  The configuration read from \<open>config.json\<close>: the names and the fax numbers of the
  own office. (\<open>officeName\<close> and \<open>port\<close> are not used by the extraction.)
\<close>

record config =
  lawyerNames :: "jstr list"
  faxNumbers :: "jstr list"

text \<open>The object \<open>info\<close>; \<open>None\<close> is a property that was never set.\<close>

record doc_info =
  courtName :: "jstr option"
  courtFax :: "jstr option"
  caseNumber :: "jstr option"
  caseNumberGuessed :: "bool option"
  caseName :: "jstr option"
  plaintiffName :: "jstr option"
  defendantName :: "jstr option"
  plaintiffLawyer :: "jstr option"
  plaintiffLawyerFax :: "jstr option"
  courtFaxFromPdf :: "jstr option"

text \<open>\<open>!v\<close> and \<open>if (v)\<close> for a property that holds a string or was never set.\<close>

definition falsy :: "jstr option \<Rightarrow> bool" where
  "falsy v = (v = None \<or> v = Some [])"

definition truthy :: "jstr option \<Rightarrow> bool" where
  "truthy v = (\<not> falsy v)"

text \<open>\<open>COURT_FAX_MAP\<close>, in the order of the source.\<close>

definition COURT_FAX_MAP :: "(jstr \<times> jstr) list" where
  "COURT_FAX_MAP =
    [([0x795E, 0x6238, 0x5730, 0x65B9, 0x88C1, 0x5224, 0x6240, 0x5C3C, 0x5D0E, 0x652F, 0x90E8], js ''06-6438-1710''),
     ([0x5927, 0x962A, 0x5730, 0x65B9, 0x88C1, 0x5224, 0x6240], js ''06-6316-2804''),
     ([0x5927, 0x962A, 0x9AD8, 0x7B49, 0x88C1, 0x5224, 0x6240], js ''06-6316-2804''),
     ([0x6771, 0x4EAC, 0x5730, 0x65B9, 0x88C1, 0x5224, 0x6240], js ''03-3580-5611''),
     ([0x6771, 0x4EAC, 0x9AD8, 0x7B49, 0x88C1, 0x5224, 0x6240], js ''03-3580-5611''),
     ([0x5E83, 0x5CF6, 0x5730, 0x65B9, 0x88C1, 0x5224, 0x6240], js ''082-228-0197''),
     ([0x5E83, 0x5CF6, 0x9AD8, 0x7B49, 0x88C1, 0x5224, 0x6240], js ''082-228-0197''),
     ([0x5E83, 0x5CF6, 0x5730, 0x65B9, 0x88C1, 0x5224, 0x6240, 0x798F, 0x5C71, 0x652F, 0x90E8], js ''084-923-2897''),
     ([0x5CA1, 0x5C71, 0x5730, 0x65B9, 0x88C1, 0x5224, 0x6240], js ''086-222-6961''),
     ([0x798F, 0x5CA1, 0x5730, 0x65B9, 0x88C1, 0x5224, 0x6240], js ''092-781-3141''),
     ([0x540D, 0x53E4, 0x5C4B, 0x5730, 0x65B9, 0x88C1, 0x5224, 0x6240], js ''052-204-7780''),
     ([0x4EAC, 0x90FD, 0x5730, 0x65B9, 0x88C1, 0x5224, 0x6240], js ''075-211-4226''),
     ([0x795E, 0x6238, 0x5730, 0x65B9, 0x88C1, 0x5224, 0x6240], js ''078-367-1478''),
     ([0x6A2A, 0x6D5C, 0x5730, 0x65B9, 0x88C1, 0x5224, 0x6240], js ''045-212-0947''),
     ([0x3055, 0x3044, 0x305F, 0x307E, 0x5730, 0x65B9, 0x88C1, 0x5224, 0x6240], js ''048-863-8761''),
     ([0x5343, 0x8449, 0x5730, 0x65B9, 0x88C1, 0x5224, 0x6240], js ''043-227-5601''),
     ([0x4ED9, 0x53F0, 0x5730, 0x65B9, 0x88C1, 0x5224, 0x6240], js ''022-266-0091''),
     ([0x672D, 0x5E4C, 0x5730, 0x65B9, 0x88C1, 0x5224, 0x6240], js ''011-271-1456''),
     ([0x5C71, 0x53E3, 0x5730, 0x65B9, 0x88C1, 0x5224, 0x6240], js ''083-922-1440'')]"

text \<open>\<open>text.replace(/\r\n/g, '\n').replace(/\r/g, '\n')\<close>.\<close>

fun replaceCRLF :: "jstr \<Rightarrow> jstr" where
  "replaceCRLF [] = []"
| "replaceCRLF [c] = [c]"
| "replaceCRLF (c # d # rest) =
     (if c = 13 \<and> d = 10 then 10 # replaceCRLF rest else c # replaceCRLF (d # rest))"

definition replaceCR :: "jstr \<Rightarrow> jstr" where
  "replaceCR s = map (\<lambda>c. if c = 13 then 10 else c) s"

definition normalizeText :: "jstr \<Rightarrow> jstr" where
  "normalizeText t = replaceCR (replaceCRLF t)"

subsection \<open>Character classes used by several expressions\<close>

definition cjkR :: "(nat \<times> nat) list" where "cjkR = [(0x4E00, 0x9FFF)]"
definition cjkKanaR :: "(nat \<times> nat) list" where
  "cjkKanaR = [(0x4E00, 0x9FFF), (0x3040, 0x309F), (0x30A0, 0x30FF)]"
definition wideDigitR :: "(nat \<times> nat) list" where "wideDigitR = [(0xFF10, 0xFF19), (48, 57)]"
definition lparR :: "(nat \<times> nat) list" where "lparR = [(0xFF08, 0xFF08), (40, 40)]"
definition rparR :: "(nat \<times> nat) list" where "rparR = [(0xFF09, 0xFF09), (41, 41)]"
definition eraR :: "(nat \<times> nat) list" where "eraR = [(0x4EE4, 0x4EE4), (0x5E73, 0x5E73)]"

text \<open>\<open>caseSymbols\<close>: \u30ef\u30f2\u30cd\u30ec\u30e2\u30cf\u30ce\u30cb\u30ca\u30e9\u884c\u308f\u3092\u306d\u308c\u3082\u306f\u306e\u306b\u306a\u3089, each code unit one member of the class.\<close>

definition caseSymbols :: "nat list" where
  "caseSymbols = [0x30EF, 0x30F2, 0x30CD, 0x30EC, 0x30E2, 0x30CF, 0x30CE, 0x30CB, 0x30CA, 0x30E9, 0x884C, 0x308F, 0x3092, 0x306D, 0x308C, 0x3082, 0x306F, 0x306E, 0x306B, 0x306A, 0x3089]"

definition symR :: "(nat \<times> nat) list" where
  "symR = map (\<lambda>c. (c, c)) caseSymbols"

subsection \<open>Court name\<close>

text \<open>\<open>cityNames\<close>, the alternatives in the order of the source.\<close>

definition cityNames :: "jstr list" where
  "cityNames =
    [[0x6771, 0x4EAC],
     [0x5927, 0x962A],
     [0x540D, 0x53E4, 0x5C4B],
     [0x5E83, 0x5CF6],
     [0x798F, 0x5CA1],
     [0x4ED9, 0x53F0],
     [0x672D, 0x5E4C],
     [0x9AD8, 0x677E],
     [0x4EAC, 0x90FD],
     [0x795E, 0x6238],
     [0x6A2A, 0x6D5C],
     [0x3055, 0x3044, 0x305F, 0x307E],
     [0x5343, 0x8449],
     [0x5C71, 0x53E3],
     [0x5CA1, 0x5C71],
     [0x798F, 0x5C71],
     [0x677E, 0x5C71],
     [0x9AD8, 0x77E5],
     [0x90A3, 0x8987],
     [0x9577, 0x5D0E],
     [0x718A, 0x672C],
     [0x9E7F, 0x5150, 0x5CF6],
     [0x5927, 0x5206],
     [0x5BAE, 0x5D0E],
     [0x4F50, 0x8CC0],
     [0x79CB, 0x7530],
     [0x9752, 0x68EE],
     [0x76DB, 0x5CA1],
     [0x5C71, 0x5F62],
     [0x798F, 0x5CF6],
     [0x6C34, 0x6238],
     [0x5B87, 0x90FD, 0x5BAE],
     [0x524D, 0x6A4B],
     [0x7532, 0x5E9C],
     [0x9577, 0x91CE],
     [0x65B0, 0x6F5F],
     [0x5BCC, 0x5C71],
     [0x91D1, 0x6CA2],
     [0x798F, 0x4E95],
     [0x6D25],
     [0x5927, 0x6D25],
     [0x5948, 0x826F],
     [0x548C, 0x6B4C, 0x5C71],
     [0x9CE5, 0x53D6],
     [0x677E, 0x6C5F],
     [0x5FB3, 0x5CF6],
     [0x65ED, 0x5DDD],
     [0x91E7, 0x8DEF],
     [0x51FD, 0x9928]]"

text \<open>
  \<open>courtPattern\<close>:
  \<open>((?:CITY)\s*(?:\u5730\u65b9|\u9ad8\u7b49|\u5bb6\u5ead|\u7c21\u6613)\s*\u88c1\u5224\s*\u6240(?:\s*[\u4e00-\u9fff]+\s*\u652f\u90e8)?(?:\s*\u6c11\u4e8b\s*\u7b2c\s*[\uff10-\uff19\d]+\s*\u90e8)?)\<close>
  with the flag \<open>g\<close>.
\<close>

definition courtPattern :: rx where
  "courtPattern =
     Grp 1 (seqs [alts (map lit cityNames), rxS,
                  alts [lit [0x5730, 0x65B9], lit [0x9AD8, 0x7B49], lit [0x5BB6, 0x5EAD], lit [0x7C21, 0x6613]], rxS,
                  lit [0x88C1, 0x5224], rxS, Chr 0x6240,
                  Opt (seqs [rxS, Plus (Cls cjkR), rxS, lit [0x652F, 0x90E8]]),
                  Opt (seqs [rxS, lit [0x6C11, 0x4E8B], rxS, Chr 0x7B2C, rxS, Plus (Cls wideDigitR), rxS,
                             Chr 0x90E8])])"

text \<open>The candidates pushed by the loop: \<open>courtMatch[1].replace(/\s+/g, '')\<close>.\<close>

definition courtCandidates :: "jstr \<Rightarrow> jstr list option" where
  "courtCandidates t =
     map_option (map (\<lambda>m. stripSpaces (groupStr t m 1))) (execAll courtPattern t)"

text \<open>\<open>courtCandidates.reduce((a, b) => a.length >= b.length ? a : b)\<close>.\<close>

definition longest :: "jstr list \<Rightarrow> jstr" where
  "longest cands = reduce1 (\<lambda>a b. if length a \<ge> length b then a else b) cands"

definition extractCourtName :: "jstr \<Rightarrow> jstr option option" where
  "extractCourtName t =
     map_option (\<lambda>cands. if length cands > 0 then Some (longest cands) else None)
       (courtCandidates t)"

subsection \<open>Case number\<close>

text \<open>
  \<open>caseNumberPatterns\<close>, with \<open>S\<close> for the class \<open>caseSymbols\<close>:
  \<^item> \<open>([\u4ee4\u5e73]\u548c\d+\u5e74[\uff08(][S][\uff09)]\s*\u7b2c?\s*\d+\u53f7)\<close>
  \<^item> \<open>([\u4ee4\u5e73]\s*\u548c\s*\d+\s*\u5e74\s*[\uff08(]\s*[S]\s*[\uff09)]\s*\u7b2c?\s*\d+\s*\u53f7)\<close>
  \<^item> \<open>([\u4ee4\u5e73]\s*\u548c\s*\d+\s*\u5e74\s*\(\s*[S]\s*\)\s*\u7b2c?\s*\d+\s*\u53f7)\<close>
  \<^item> \<open>(\u4ee4\s*\u548c\s*(\d+)\s*\u5e74\s*[\uff08(]\s*([S])\s*[\uff09)]\s*\u7b2c\s*(\d+)\s*\u53f7)\<close>
\<close>

definition caseNumberPatterns :: "rx list" where
  "caseNumberPatterns =
     [Grp 1 (seqs [Cls eraR, Chr 0x548C, rxD1, Chr 0x5E74, Cls lparR, Cls symR, Cls rparR,
                   rxS, Opt (Chr 0x7B2C), rxS, rxD1, Chr 0x53F7]),
      Grp 1 (seqs [Cls eraR, rxS, Chr 0x548C, rxS, rxD1, rxS, Chr 0x5E74, rxS, Cls lparR, rxS,
                   Cls symR, rxS, Cls rparR, rxS, Opt (Chr 0x7B2C), rxS, rxD1, rxS, Chr 0x53F7]),
      Grp 1 (seqs [Cls eraR, rxS, Chr 0x548C, rxS, rxD1, rxS, Chr 0x5E74, rxS, Chr 40, rxS,
                   Cls symR, rxS, Chr 41, rxS, Opt (Chr 0x7B2C), rxS, rxD1, rxS, Chr 0x53F7]),
      Grp 1 (seqs [Chr 0x4EE4, rxS, Chr 0x548C, rxS, Grp 2 rxD1, rxS, Chr 0x5E74, rxS, Cls lparR, rxS,
                   Grp 3 (Cls symR), rxS, Cls rparR, rxS, Chr 0x7B2C, rxS, Grp 4 rxD1, rxS,
                   Chr 0x53F7])]"

text \<open>The \<open>for (const pattern of ...)\<close> loops that stop at the first pattern that matches.\<close>

fun firstMatch :: "rx list \<Rightarrow> jstr \<Rightarrow> rmatch_result option" where
  "firstMatch [] t = None"
| "firstMatch (r # rs) t =
     (case matchRx r t of Some m \<Rightarrow> Some m | None \<Rightarrow> firstMatch rs t)"

text \<open>\<open>cn.replace(/\uff08/g, '(').replace(/\uff09/g, ')')\<close>.\<close>

definition halfWidthBrackets :: "jstr \<Rightarrow> jstr" where
  "halfWidthBrackets s = map (\<lambda>c. if c = 0xFF08 then 40 else if c = 0xFF09 then 41 else c) s"

definition caseNumberDirect :: "jstr \<Rightarrow> jstr option" where
  "caseNumberDirect t =
     (case firstMatch caseNumberPatterns t of
        Some m \<Rightarrow> Some (halfWidthBrackets (stripSpaces (groupStr t m 1)))
      | None \<Rightarrow> None)"

text \<open>
  The second way, through the section "display of the case":
  \<^item> \<open>displaySection\<close>: \<open>\u4e8b\s*\u4ef6\s*\u306e\s*\u8868\s*\u793a[\u3011\]\s]*([^\n]{1,80})\<close>
  \<^item> \<open>fullCaseNumber\<close>: \<open>\u4ee4?\s*\u548c?\s*(\d+)\s*\u5e74?\s*[\uff08(]\s*([S])\s*[\uff09)]\s*\u7b2c\s*(\d+)\s*\u53f7\<close>
  \<^item> \<open>serialNumber\<close>: \<open>\u7b2c\s*(\d+)\s*\u53f7\<close>
  \<^item> \<open>symbolInBrackets\<close>: \<open>[\uff08(]\s*([S])\s*[\uff09)]\<close>
  \<^item> \<open>yearRegex\<close>: \<open>\u4ee4\s*\u548c\s*(\d+)\s*\u5e74\<close> with the flag \<open>g\<close>
\<close>

definition displaySection :: rx where
  "displaySection =
     seqs [Chr 0x4E8B, rxS, Chr 0x4EF6, rxS, Chr 0x306E, rxS, Chr 0x8868, rxS, Chr 0x793A,
           Star (Cls ((0x3011, 0x3011) # (93, 93) # wsR)),
           Grp 1 (Rep True 1 (Some 80) rxNotNl)]"

definition fullCaseNumber :: rx where
  "fullCaseNumber =
     seqs [Opt (Chr 0x4EE4), rxS, Opt (Chr 0x548C), rxS, Grp 1 rxD1, rxS, Opt (Chr 0x5E74), rxS,
           Cls lparR, rxS, Grp 2 (Cls symR), rxS, Cls rparR, rxS, Chr 0x7B2C, rxS, Grp 3 rxD1,
           rxS, Chr 0x53F7]"

definition serialNumber :: rx where
  "serialNumber = seqs [Chr 0x7B2C, rxS, Grp 1 rxD1, rxS, Chr 0x53F7]"

definition symbolInBrackets :: rx where
  "symbolInBrackets = seqs [Cls lparR, rxS, Grp 1 (Cls symR), rxS, Cls rparR]"

definition yearRegex :: rx where
  "yearRegex = seqs [Chr 0x4EE4, rxS, Chr 0x548C, rxS, Grp 1 rxD1, rxS, Chr 0x5E74]"

text \<open>\<open>parseInt\<close> of a string of decimal digits, as a natural number.\<close>

definition parseDigits :: "jstr \<Rightarrow> nat" where
  "parseDigits ds = foldl (\<lambda>n d. 10 * n + (d - 48)) 0 ds"

text \<open>
  The template strings. \<open>numStr\<close> stands for the conversion of the number
  \<open>Math.min(...yearMatches)\<close> to a string: the program holds the years as
  floating-point numbers, which print as their decimal digits below \<open>2^53\<close> and
  rounded above; the conversion is a parameter of the model.
\<close>

definition caseNumberText :: "jstr \<Rightarrow> jstr \<Rightarrow> jstr \<Rightarrow> jstr" where
  "caseNumberText year symbol num =
     [0x4EE4, 0x548C] @ year @ [0x5E74, 40] @ symbol @ [41, 0x7B2C] @ num @ [0x53F7]"

definition caseNumberNoYear :: "jstr \<Rightarrow> jstr \<Rightarrow> jstr" where
  "caseNumberNoYear symbol num = [40] @ symbol @ [41, 0x7B2C] @ num @ [0x53F7]"

text \<open>\<open>Math.min\<close> over a non-empty list.\<close>

definition minList :: "nat list \<Rightarrow> nat" where
  "minList xs = foldl min (hd xs) (tl xs)"

text \<open>
  The branch \<open>if (!info.caseNumber)\<close>: the case number and the flag
  \<open>caseNumberGuessed\<close>, each \<open>None\<close> when it is not set.
\<close>

definition caseNumberFromDisplay ::
  "(nat \<Rightarrow> jstr) \<Rightarrow> jstr \<Rightarrow> (jstr option \<times> bool option) option" where
  "caseNumberFromDisplay numStr t =
     (case matchRx displaySection t of
        None \<Rightarrow> Some (None, None)
      | Some dm \<Rightarrow>
          (let sectionText = groupStr t dm 1 in
           case matchRx fullCaseNumber sectionText of
             Some fm \<Rightarrow>
               Some (Some (caseNumberText (groupStr sectionText fm 1) (groupStr sectionText fm 2)
                             (groupStr sectionText fm 3)), None)
           | None \<Rightarrow>
               (case matchRx serialNumber sectionText of
                  None \<Rightarrow> Some (None, None)
                | Some nm \<Rightarrow>
                    (let caseNum = groupStr sectionText nm 1;
                         symbolMatch = matchRx symbolInBrackets sectionText;
                         symbol = (case symbolMatch of
                                     Some sm \<Rightarrow> groupStr sectionText sm 1
                                   | None \<Rightarrow> [0x30EF]);
                         guessed = (symbolMatch = None)
                     in case execAll yearRegex t of
                          None \<Rightarrow> None
                        | Some yms \<Rightarrow>
                            (let yearMatches = map (\<lambda>ym. parseDigits (groupStr t ym 1)) yms
                             in if length yearMatches > 0
                                then Some (Some (caseNumberText (numStr (minList yearMatches))
                                                   symbol caseNum),
                                           Some guessed)
                                else Some (Some (caseNumberNoYear symbol caseNum), Some True))))))"

definition extractCaseNumber ::
  "(nat \<Rightarrow> jstr) \<Rightarrow> jstr \<Rightarrow> (jstr option \<times> bool option) option" where
  "extractCaseNumber numStr t =
     (let direct = caseNumberDirect t
      in if falsy direct then caseNumberFromDisplay numStr t else Some (direct, None))"

subsection \<open>Case name\<close>

text \<open>
  \<open>caseNamePatterns\<close>:
  \<^item> \<open>\u640d\u5bb3\s*\u8ce0\u511f[\s\S]{0,50}?\u8acb\u6c42\s*\u4e8b\u4ef6\<close>
  \<^item> \<open>(?:\u53f7\s*)([\u4e00-\u9fff]+(?:\u8acb\u6c42|\u78ba\u8a8d|\u7b49?)\s*\u4e8b\u4ef6)\<close>
  \<^item> \<open>(\u640d\u5bb3\u8ce0\u511f\u8acb\u6c42\u4e8b\u4ef6|\u8cb8\u91d1\u8fd4\u9084\u8acb\u6c42\u4e8b\u4ef6|\u5efa\u7269\u660e\u6e21\u8acb\u6c42\u4e8b\u4ef6|\u4e0d\u5f53\u5229\u5f97\u8fd4\u9084\u8acb\u6c42\u4e8b\u4ef6|(?:[\u4e00-\u9fff]+\u8acb\u6c42\u4e8b\u4ef6))\<close>
  \<^item> \<open>([\u4e00-\u9fff]+\s+(?:\u8acb\u6c42|\u78ba\u8a8d)\s*\u4e8b\u4ef6)\<close>

  and the two expressions of the clean-up, \<open>^\u53f7\s*\<close> and
  \<open>([\u4e00-\u9fff]+\u8acb\u6c42\u4e8b\u4ef6|[\u4e00-\u9fff]+\u78ba\u8a8d\u4e8b\u4ef6)\<close>.
\<close>

definition caseNamePatterns :: "rx list" where
  "caseNamePatterns =
     [seqs [lit [0x640D, 0x5BB3], rxS, lit [0x8CE0, 0x511F], Rep False 0 (Some 50) rxAny, lit [0x8ACB, 0x6C42], rxS, lit [0x4E8B, 0x4EF6]],
      seqs [Chr 0x53F7, rxS,
            Grp 1 (seqs [Plus (Cls cjkR), alts [lit [0x8ACB, 0x6C42], lit [0x78BA, 0x8A8D], Opt (Chr 0x7B49)], rxS,
                         lit [0x4E8B, 0x4EF6]])],
      Grp 1 (alts [lit [0x640D, 0x5BB3, 0x8CE0, 0x511F, 0x8ACB, 0x6C42, 0x4E8B, 0x4EF6], lit [0x8CB8, 0x91D1, 0x8FD4, 0x9084, 0x8ACB, 0x6C42, 0x4E8B, 0x4EF6], lit [0x5EFA, 0x7269, 0x660E, 0x6E21, 0x8ACB, 0x6C42, 0x4E8B, 0x4EF6],
                   lit [0x4E0D, 0x5F53, 0x5229, 0x5F97, 0x8FD4, 0x9084, 0x8ACB, 0x6C42, 0x4E8B, 0x4EF6], Seq (Plus (Cls cjkR)) (lit [0x8ACB, 0x6C42, 0x4E8B, 0x4EF6])]),
      Grp 1 (seqs [Plus (Cls cjkR), Plus (Cls wsR), alts [lit [0x8ACB, 0x6C42], lit [0x78BA, 0x8A8D]], rxS,
                   lit [0x4E8B, 0x4EF6]])]"

definition leadingGou :: rx where
  "leadingGou = seqs [Bol, Chr 0x53F7, rxS]"

definition claimName :: rx where
  "claimName = Grp 1 (Alt (Seq (Plus (Cls cjkR)) (lit [0x8ACB, 0x6C42, 0x4E8B, 0x4EF6]))
                          (Seq (Plus (Cls cjkR)) (lit [0x78BA, 0x8A8D, 0x4E8B, 0x4EF6])))"

definition extractCaseName :: "jstr \<Rightarrow> jstr option" where
  "extractCaseName t =
     (case firstMatch caseNamePatterns t of
        None \<Rightarrow> None
      | Some m \<Rightarrow>
          (let m0 = matched t m;
               caseName1 = (if truthy (group t m 1) \<and> \<not> prefix [0x640D, 0x5BB3] m0
                            then groupStr t m 1 else m0);
               caseName2 = replaceFirst leadingGou (\<lambda>_. []) caseName1;
               caseName3 = stripSpaces caseName2
           in case matchRx claimName caseName3 of
                Some cm \<Rightarrow> Some (groupStr caseName3 cm 1)
              | None \<Rightarrow> (if includesStr caseName3 [0x4E8B, 0x4EF6] then Some caseName3 else None)))"

subsection \<open>Party names\<close>

text \<open>
  The expressions of the party section:
  \<^item> \<open>partySectionRx\<close>: \<open>\u5f53\s*\u4e8b\s*\u8005[\s\S]{0,200}\<close>
  \<^item> \<open>plaintiffInPartyRx\<close>: \<open>\u539f\s*[\u544a&]\s*[_\s]*([^\n\u539f\u88ab]{1,40})\<close>
  \<^item> \<open>defendantInPartyRx\<close>: \<open>\u88ab\s*\u544a\s*[_\s]*([^\n\u539f\u88ab]{1,40})\<close>
  \<^item> \<open>othersSuffix\<close>: \<open>\s*(\u5916\s*\d+\s*\u540d)\s*$\<close>
  \<^item> \<open>othersSplit\<close>: \<open> (\u5916\d+\u540d)$\<close>
\<close>

definition partySectionRx :: rx where
  "partySectionRx = seqs [Chr 0x5F53, rxS, Chr 0x4E8B, rxS, Chr 0x8005, Rep True 0 (Some 200) rxAny]"

definition plaintiffInPartyRx :: rx where
  "plaintiffInPartyRx =
     seqs [Chr 0x539F, rxS, Cls [(0x544A, 0x544A), (38, 38)], rxS, Star (Cls ((95, 95) # wsR)),
           Grp 1 (Rep True 1 (Some 40) (NCls [(10, 10), (0x539F, 0x539F), (0x88AB, 0x88AB)]))]"

definition defendantInPartyRx :: rx where
  "defendantInPartyRx =
     seqs [Chr 0x88AB, rxS, Chr 0x544A, rxS, Star (Cls ((95, 95) # wsR)),
           Grp 1 (Rep True 1 (Some 40) (NCls [(10, 10), (0x539F, 0x539F), (0x88AB, 0x88AB)]))]"

definition othersSuffix :: rx where
  "othersSuffix = seqs [rxS, Grp 1 (seqs [Chr 0x5916, rxS, rxD1, rxS, Chr 0x540D]), rxS, Eol]"

definition othersSplit :: rx where
  "othersSplit = seqs [Chr 32, Grp 1 (seqs [Chr 0x5916, rxD1, Chr 0x540D]), Eol]"

text \<open>
  The clean-up of a captured name, which the source repeats for each of its four
  patterns: trim; rewrite a trailing "and N others" to one space and the suffix
  without white space; \<open>split\<close> at that suffix; join the name, stripped of white
  space, and the suffix with one space, or strip the white space when there is no
  suffix. \<open>split\<close> with this expression returns more than one part exactly when the
  expression matches, and then the first part is the text before the match and the
  second the capture.
\<close>

definition cleanPartyName :: "jstr \<Rightarrow> jstr" where
  "cleanPartyName raw =
     (let name1 = trim raw;
          name2 = replaceFirst othersSuffix
                    (\<lambda>m. 32 # stripSpaces (groupStr name1 m 1)) name1
      in case matchRx othersSplit name2 of
           Some sm \<Rightarrow> stripSpaces (take (m_index sm) name2) @ [32] @ groupStr name2 sm 1
         | None \<Rightarrow> stripSpaces name2)"

definition nameInPartySection :: "rx \<Rightarrow> jstr \<Rightarrow> jstr option" where
  "nameInPartySection r t =
     (case matchRx partySectionRx t of
        None \<Rightarrow> None
      | Some ps \<Rightarrow>
          (let partySectionText = matched t ps
           in case matchRx r partySectionText of
                None \<Rightarrow> None
              | Some pm \<Rightarrow> Some (cleanPartyName (groupStr partySectionText pm 1))))"

text \<open>
  The fall-back patterns:
  \<^item> \<open>[\u3010\[]\s*\u539f\s*\u544a\s*[\u3011\]]\s*([^\n\u3010\[]{1,30})\<close>
  \<^item> \<open>\u539f\s*\u544a\s+(?!.*(?:\u8a34\u8a1f|\u4ee3\u7406))([^\n\uff08(\u88ab\u4ee3\u8a34]{1,20})\<close>
  \<^item> \<open>[\u3010\[]\s*(?:\u88ab|a)\s*\u544a\s*[\u3011\]]\s*([^\n\u3010\[]{1,30})\<close>
  \<^item> \<open>\u88ab\s*\u544a\s+(?!.*(?:\u8a34\u8a1f|\u4ee3\u7406))([^\n\uff08(\u539f\u4ee3\u8a34]{1,30})\<close>
\<close>

definition noCounselAhead :: rx where
  "noCounselAhead = NegLook (Seq (Star rxDot) (Alt (lit [0x8A34, 0x8A1F]) (lit [0x4EE3, 0x7406])))"

definition plaintiffPatterns :: "rx list" where
  "plaintiffPatterns =
     [seqs [Cls [(0x3010, 0x3010), (91, 91)], rxS, Chr 0x539F, rxS, Chr 0x544A, rxS,
            Cls [(0x3011, 0x3011), (93, 93)], rxS,
            Grp 1 (Rep True 1 (Some 30) (NCls [(10, 10), (0x3010, 0x3010), (91, 91)]))],
      seqs [Chr 0x539F, rxS, Chr 0x544A, Plus (Cls wsR), noCounselAhead,
            Grp 1 (Rep True 1 (Some 20)
                     (NCls [(10, 10), (0xFF08, 0xFF08), (40, 40), (0x88AB, 0x88AB), (0x4EE3, 0x4EE3),
                            (0x8A34, 0x8A34)]))]]"

definition defendantPatterns :: "rx list" where
  "defendantPatterns =
     [seqs [Cls [(0x3010, 0x3010), (91, 91)], rxS, Alt (Chr 0x88AB) (Chr 97), rxS, Chr 0x544A, rxS,
            Cls [(0x3011, 0x3011), (93, 93)], rxS,
            Grp 1 (Rep True 1 (Some 30) (NCls [(10, 10), (0x3010, 0x3010), (91, 91)]))],
      seqs [Chr 0x88AB, rxS, Chr 0x544A, Plus (Cls wsR), noCounselAhead,
            Grp 1 (Rep True 1 (Some 30)
                     (NCls [(10, 10), (0xFF08, 0xFF08), (40, 40), (0x539F, 0x539F), (0x4EE3, 0x4EE3),
                            (0x8A34, 0x8A34)]))]]"

definition nameByPatterns :: "rx list \<Rightarrow> jstr \<Rightarrow> jstr option" where
  "nameByPatterns rs t =
     (case firstMatch rs t of
        None \<Rightarrow> None
      | Some m \<Rightarrow> Some (cleanPartyName (groupStr t m 1)))"

text \<open>The name from the party section, and from the fall-back when that is empty or absent.\<close>

definition extractPartyName :: "rx \<Rightarrow> rx list \<Rightarrow> jstr \<Rightarrow> jstr option" where
  "extractPartyName inParty fallback t =
     (let fromSection = nameInPartySection inParty t
      in if falsy fromSection
         then (case nameByPatterns fallback t of Some n \<Rightarrow> Some n | None \<Rightarrow> fromSection)
         else fromSection)"

definition extractPlaintiffName :: "jstr \<Rightarrow> jstr option" where
  "extractPlaintiffName t = extractPartyName plaintiffInPartyRx plaintiffPatterns t"

definition extractDefendantName :: "jstr \<Rightarrow> jstr option" where
  "extractDefendantName t = extractPartyName defendantInPartyRx defendantPatterns t"

subsection \<open>Counsel of the plaintiff\<close>

text \<open>
  \<open>cleanLawyerName\<close>. \<open>name.match(/[\u4e00-\u9fff\u3040-\u309f\u30a0-\u30ff]+/g)\<close> followed by \<open>join('')\<close> keeps
  the characters of the class and drops the others; \<open>null\<close> when there is none. Then
  \<open>\u5b9b\u3066$\<close> and \<open>[\u5b9b\u6bbf\u69d8\u5fa1\u4e2d\u65b9\u548c]+$\<close> are removed, the length is checked, and a name that
  begins with one of \<open>[\u6cd5\u4f1a\u4e8b\u4ef6\u756a\u53f7\u88c1\u5224]\<close> is rejected.
\<close>

definition ateSuffix :: rx where
  "ateSuffix = seqs [lit [0x5B9B, 0x3066], Eol]"

definition honorificSuffix :: rx where
  "honorificSuffix =
     Seq (Plus (Cls (map (\<lambda>c. (c, c)) [0x5B9B, 0x6BBF, 0x69D8, 0x5FA1, 0x4E2D, 0x65B9, 0x548C]))) Eol"

definition boilerplateStart :: rx where
  "boilerplateStart = Seq Bol (Cls (map (\<lambda>c. (c, c)) [0x6CD5, 0x4F1A, 0x4E8B, 0x4EF6, 0x756A, 0x53F7, 0x88C1, 0x5224]))"

definition cleanLawyerName :: "jstr \<Rightarrow> jstr option" where
  "cleanLawyerName rawName =
     (let name0 = trim rawName;
          cjkChars = filter (inCls cjkKanaR) name0
      in if cjkChars = [] then None
         else
           (let name1 = replaceFirst ateSuffix (\<lambda>_. []) cjkChars;
                name2 = replaceFirst honorificSuffix (\<lambda>_. []) name1
            in if length name2 < 2 \<or> length name2 > 6 then None
               else if testRx boilerplateStart name2 then None
               else Some name2))"

text \<open>
  The four patterns, all with the flag \<open>g\<close>:
  \<^item> \<open>formalPattern\<close>: \<open>\u539f\u544a\s*(?:\u3089)?\s*(?:\u8a34\s*\u8a1f)?\s*\u4ee3\u7406\s*\u4eba\s*\u5f01\u8b77\s*\u58eb\s*([^\n]{2,20})\<close>
  \<^item> \<open>senderPattern\<close>: \<open>\u4eba\s*\u5f01\u8b77\s*\u58eb\s*([^\n]{2,20})\<close>
  \<^item> \<open>atePattern\<close>: \<open>\u5f01\u8b77\s*\u58eb\s*([^\n]{2,15})\s*\u5b9b\<close>
  \<^item> \<open>generalPattern\<close>: \<open>\u5f01\u8b77\s*\u58eb\s*([^\n]{2,15})\<close>
\<close>

definition formalPattern :: rx where
  "formalPattern =
     seqs [lit [0x539F, 0x544A], rxS, Opt (Chr 0x3089), rxS, Opt (seqs [Chr 0x8A34, rxS, Chr 0x8A1F]), rxS,
           lit [0x4EE3, 0x7406], rxS, Chr 0x4EBA, rxS, lit [0x5F01, 0x8B77], rxS, Chr 0x58EB, rxS,
           Grp 1 (Rep True 2 (Some 20) rxNotNl)]"

definition senderPattern :: rx where
  "senderPattern =
     seqs [Chr 0x4EBA, rxS, lit [0x5F01, 0x8B77], rxS, Chr 0x58EB, rxS, Grp 1 (Rep True 2 (Some 20) rxNotNl)]"

definition atePattern :: rx where
  "atePattern =
     seqs [lit [0x5F01, 0x8B77], rxS, Chr 0x58EB, rxS, Grp 1 (Rep True 2 (Some 15) rxNotNl), rxS, Chr 0x5B9B]"

definition generalPattern :: rx where
  "generalPattern =
     seqs [lit [0x5F01, 0x8B77], rxS, Chr 0x58EB, rxS, Grp 1 (Rep True 2 (Some 15) rxNotNl)]"

text \<open>An entry of \<open>lawyerCandidates\<close>.\<close>

record candidate =
  cand_name :: jstr
  priority :: int

text \<open>
  \<open>normalizedText.substring(Math.max(0, lm.index - n), lm.index)\<close>, the \<open>n\<close> characters
  before a match.
\<close>

definition contextBefore :: "jstr \<Rightarrow> nat \<Rightarrow> nat \<Rightarrow> jstr" where
  "contextBefore t idx n = substring t (max 0 (int idx - int n)) (int idx)"

text \<open>The bodies of the four \<open>while\<close> loops, for one match each.\<close>

definition formalCandidate :: "jstr \<Rightarrow> rmatch_result \<Rightarrow> candidate list" where
  "formalCandidate t lm =
     (case cleanLawyerName (groupStr t lm 1) of
        Some n \<Rightarrow> [\<lparr>cand_name = n, priority = 1\<rparr>]
      | None \<Rightarrow> [])"

definition senderCandidate :: "jstr \<Rightarrow> rmatch_result \<Rightarrow> candidate list" where
  "senderCandidate t lm =
     (if includesStr (contextBefore t (m_index lm) 30) [0x88AB, 0x544A] then []
      else case cleanLawyerName (groupStr t lm 1) of
             Some n \<Rightarrow> [\<lparr>cand_name = n, priority = 2\<rparr>]
           | None \<Rightarrow> [])"

definition ateCandidate :: "jstr \<Rightarrow> rmatch_result \<Rightarrow> candidate list" where
  "ateCandidate t lm =
     (case cleanLawyerName (groupStr t lm 1) of
        Some n \<Rightarrow> [\<lparr>cand_name = n, priority = 3\<rparr>]
      | None \<Rightarrow> [])"

definition generalCandidate :: "config \<Rightarrow> jstr \<Rightarrow> rmatch_result \<Rightarrow> candidate list" where
  "generalCandidate cfg t lm =
     (if includesStr (contextBefore t (m_index lm) 50) [0x88AB, 0x544A] then []
      else case cleanLawyerName (groupStr t lm 1) of
             Some n \<Rightarrow> (if \<not> list_ex (\<lambda>own. includesStr n own) (lawyerNames cfg)
                         then [\<lparr>cand_name = n, priority = 4\<rparr>] else [])
           | None \<Rightarrow> [])"

definition lawyerCandidates :: "config \<Rightarrow> jstr \<Rightarrow> candidate list option" where
  "lawyerCandidates cfg t =
     Option.bind (execAll formalPattern t) (\<lambda>ms1.
     Option.bind (execAll senderPattern t) (\<lambda>ms2.
     Option.bind (execAll atePattern t) (\<lambda>ms3.
     Option.bind (execAll generalPattern t) (\<lambda>ms4.
       Some (concat (map (formalCandidate t) ms1) @ concat (map (senderCandidate t) ms2)
             @ concat (map (ateCandidate t) ms3) @ concat (map (generalCandidate cfg t) ms4))))))"

text \<open>\<open>[...new Set(xs)]\<close>: the first occurrence of every element, in order.\<close>

fun uniq :: "'a list \<Rightarrow> 'a list" where
  "uniq [] = []"
| "uniq (x # xs) = x # filter (\<lambda>y. y \<noteq> x) (uniq xs)"

text \<open>
  \<open>Array.prototype.sort\<close> with a comparison function: a stable sort. \<open>insertBy\<close> puts
  an element behind the elements that do not compare greater.
\<close>

fun insertBy :: "('a \<Rightarrow> 'a \<Rightarrow> int) \<Rightarrow> 'a \<Rightarrow> 'a list \<Rightarrow> 'a list" where
  "insertBy cmp x [] = [x]"
| "insertBy cmp x (y # ys) = (if cmp y x \<le> 0 then y # insertBy cmp x ys else x # y # ys)"

definition sortBy :: "('a \<Rightarrow> 'a \<Rightarrow> int) \<Rightarrow> 'a list \<Rightarrow> 'a list" where
  "sortBy cmp xs = foldl (\<lambda>acc x. insertBy cmp x acc) [] xs"

definition byPriority :: "candidate \<Rightarrow> candidate \<Rightarrow> int" where
  "byPriority a b = priority a - priority b"

definition isIdeal :: "candidate \<Rightarrow> int" where
  "isIdeal a = (if length (cand_name a) \<ge> 3 \<and> length (cand_name a) \<le> 4 then 0 else 1)"

definition byRank :: "candidate \<Rightarrow> candidate \<Rightarrow> int" where
  "byRank a b =
     (if priority a \<noteq> priority b then priority a - priority b
      else if isIdeal a \<noteq> isIdeal b then isIdeal a - isIdeal b
      else int (length (cand_name b)) - int (length (cand_name a)))"

definition uniqueCandidates :: "candidate list \<Rightarrow> candidate list" where
  "uniqueCandidates cands =
     map (\<lambda>n. hd (sortBy byPriority (filter (\<lambda>c. cand_name c = n) cands)))
       (uniq (map cand_name cands))"

text \<open>The branch \<open>if (lawyerCandidates.length > 0)\<close>, for a list that is not empty.\<close>

definition chooseLawyer :: "candidate list \<Rightarrow> jstr" where
  "chooseLawyer cands =
     (let sorted = sortBy byRank (uniqueCandidates cands);
          bestName = cand_name (hd sorted)
      in if length bestName = 5 then
           (case findFirst (\<lambda>c. length (cand_name c) \<le> 3 \<and> prefix (cand_name c) bestName) sorted of
              Some shorter \<Rightarrow> substring bestName 0 4
            | None \<Rightarrow> bestName)
         else bestName)"

definition extractLawyer :: "config \<Rightarrow> jstr \<Rightarrow> jstr option option" where
  "extractLawyer cfg t =
     map_option (\<lambda>cands. if length cands > 0 then Some (chooseLawyer cands) else None)
       (lawyerCandidates cfg t)"

subsection \<open>Court fax from the dictionary\<close>

text \<open>
  \<open>courtBase\<close>: the court name without \<open>\u6c11\u4e8b\u7b2c[\uff10-\uff19\d]+\u90e8.*$\<close> and then without
  \<open>\u7b2c[\uff10-\uff19\d]+[\u6c11\u5211]\u4e8b\u90e8$\<close>. \<open>COURT_FAX_MAP[courtBase] || ''\<close> is the entry of the
  dictionary, or the empty string.
\<close>

definition civilDivision :: rx where
  "civilDivision = seqs [lit [0x6C11, 0x4E8B, 0x7B2C], Plus (Cls wideDigitR), Chr 0x90E8, Star rxDot, Eol]"

definition numberedDivision :: rx where
  "numberedDivision =
     seqs [Chr 0x7B2C, Plus (Cls wideDigitR), Cls [(0x6C11, 0x6C11), (0x5211, 0x5211)], lit [0x4E8B, 0x90E8], Eol]"

definition courtBase :: "jstr \<Rightarrow> jstr" where
  "courtBase name =
     replaceFirst numberedDivision (\<lambda>_. []) (replaceFirst civilDivision (\<lambda>_. []) name)"

definition dictionaryFax :: "jstr option \<Rightarrow> jstr option" where
  "dictionaryFax name =
     (if truthy name
      then (case map_of COURT_FAX_MAP (courtBase (the name)) of
              Some fax \<Rightarrow> (if fax = [] then Some [] else Some fax)
            | None \<Rightarrow> Some [])
      else None)"

subsection \<open>Fax numbers\<close>

text \<open>
  \<open>normalizeFax\<close>: a full-width digit becomes the ASCII digit, \<open>\uff0d\<close> and \<open>\u30fc\<close> become
  the hyphen.
\<close>

definition normalizeFax :: "jstr \<Rightarrow> jstr" where
  "normalizeFax raw =
     map (\<lambda>c. if c = 0xFF0D \<or> c = 0x30FC then 45 else c)
       (map (\<lambda>c. if 0xFF10 \<le> c \<and> c \<le> 0xFF19 then c - 0xFEE0 else c) raw)"

text \<open>
  The expressions, with \<open>FAXWORD\<close> for \<open>(?:FAX|\uff26\uff21\uff38|[Ff]ax)\<close> and \<open>NUM\<close> for
  \<open>[0-9\uff10-\uff19\-\uff0d\u30fc]+\<close>:
  \<^item> \<open>explicitCourtFax\<close>: \<open>\u88c1\s*\u5224\s*\u6240[\s\S]{0,60}?[\uff08(]\s*FAXWORD\s*(NUM)\s*[\uff09)]\<close>
  \<^item> \<open>explicitFaxRegex\<close>: \<open>([\u4e00-\u9fff]{1,10})\s*[\uff08(]\s*FAXWORD\s*(NUM)\s*[\uff09)]\<close>, flag \<open>g\<close>
  \<^item> \<open>faxRegex\<close>: \<open>FAXWORD[\uff1a:\s]*(NUM)\<close>, flag \<open>g\<close>
  \<^item> \<open>nearPlaintiffCounsel\<close>: \<open>\u539f\u544a\s*(?:\u3089)?\s*\u8a34\s*\u8a1f\s*\u4ee3\s*\u7406\s*\u4eba\<close>
  \<^item> \<open>bengoshi\<close>: \<open>\u5f01\u8b77\s*\u58eb\<close>
  \<^item> \<open>nearDefendantCounsel\<close>: \<open>\u88ab\u544a\s*(?:\u3089)?\s*\u8a34\s*\u8a1f\s*\u4ee3\s*\u7406\s*\u4eba\<close>
\<close>

definition faxWord :: rx where
  "faxWord = alts [lit (js ''FAX''), lit [0xFF26, 0xFF21, 0xFF38], Seq (Cls [(70, 70), (102, 102)]) (lit (js ''ax''))]"

definition faxCharsR :: "(nat \<times> nat) list" where
  "faxCharsR = [(48, 57), (0xFF10, 0xFF19), (45, 45), (0xFF0D, 0xFF0D), (0x30FC, 0x30FC)]"

definition explicitCourtFax :: rx where
  "explicitCourtFax =
     seqs [Chr 0x88C1, rxS, Chr 0x5224, rxS, Chr 0x6240, Rep False 0 (Some 60) rxAny, Cls lparR, rxS,
           faxWord, rxS, Grp 1 (Plus (Cls faxCharsR)), rxS, Cls rparR]"

definition explicitFaxRegex :: rx where
  "explicitFaxRegex =
     seqs [Grp 1 (Rep True 1 (Some 10) (Cls cjkR)), rxS, Cls lparR, rxS, faxWord, rxS,
           Grp 2 (Plus (Cls faxCharsR)), rxS, Cls rparR]"

definition faxRegex :: rx where
  "faxRegex =
     seqs [faxWord, Star (Cls ((0xFF1A, 0xFF1A) # (58, 58) # wsR)), Grp 1 (Plus (Cls faxCharsR))]"

definition nearPlaintiffCounsel :: rx where
  "nearPlaintiffCounsel =
     seqs [lit [0x539F, 0x544A], rxS, Opt (Chr 0x3089), rxS, Chr 0x8A34, rxS, Chr 0x8A1F, rxS, Chr 0x4EE3, rxS,
           Chr 0x7406, rxS, Chr 0x4EBA]"

definition bengoshi :: rx where
  "bengoshi = seqs [lit [0x5F01, 0x8B77], rxS, Chr 0x58EB]"

definition nearDefendantCounsel :: rx where
  "nearDefendantCounsel =
     seqs [lit [0x88AB, 0x544A], rxS, Opt (Chr 0x3089), rxS, Chr 0x8A34, rxS, Chr 0x8A1F, rxS, Chr 0x4EE3, rxS,
           Chr 0x7406, rxS, Chr 0x4EBA]"

text \<open>The fax numbers of the own office: \<open>ownFaxPatterns.some(p => fax.includes(p))\<close>.\<close>

definition isOwnFax :: "config \<Rightarrow> jstr \<Rightarrow> bool" where
  "isOwnFax cfg fax = list_ex (\<lambda>p. includesStr fax p) (faxNumbers cfg)"

text \<open>The part of \<open>info\<close> the fax extraction reads and writes.\<close>

record fax_info =
  fi_courtFaxFromPdf :: "jstr option"
  fi_plaintiffLawyerFax :: "jstr option"

definition explicitCourtFaxOf :: "jstr \<Rightarrow> jstr option" where
  "explicitCourtFaxOf t =
     (case matchRx explicitCourtFax t of
        Some m \<Rightarrow> Some (normalizeFax (groupStr t m 1))
      | None \<Rightarrow> None)"

text \<open>An entry of \<open>allExplicitFaxes\<close>, and the body of the loop over them.\<close>

record explicit_fax =
  ef_label :: jstr
  ef_fax :: jstr

definition allExplicitFaxes :: "jstr \<Rightarrow> explicit_fax list option" where
  "allExplicitFaxes t =
     map_option (map (\<lambda>efm. \<lparr>ef_label = groupStr t efm 1, ef_fax = normalizeFax (groupStr t efm 2)\<rparr>))
       (execAll explicitFaxRegex t)"

definition explicitStep :: "config \<Rightarrow> fax_info \<Rightarrow> explicit_fax \<Rightarrow> fax_info" where
  "explicitStep cfg info ef =
     (if includesStr (ef_label ef) [0x88C1, 0x5224] \<or> includesStr (ef_label ef) [0x88C1, 0x5224, 0x6240] then info
      else if truthy (fi_courtFaxFromPdf info) \<and> Some (ef_fax ef) = fi_courtFaxFromPdf info then info
      else if \<not> isOwnFax cfg (ef_fax ef) \<and> falsy (fi_plaintiffLawyerFax info)
           then info\<lparr>fi_plaintiffLawyerFax := Some (ef_fax ef)\<rparr>
           else info)"

text \<open>An entry of \<open>allFaxEntries\<close>, and the body of the loop over them.\<close>

record fax_entry =
  fe_fax :: jstr
  fe_index :: nat

definition allFaxEntries :: "jstr \<Rightarrow> fax_entry list option" where
  "allFaxEntries t =
     map_option (map (\<lambda>fm. \<lparr>fe_fax = normalizeFax (groupStr t fm 1), fe_index = m_index fm\<rparr>))
       (execAll faxRegex t)"

definition courtFaxValues :: "jstr list" where
  "courtFaxValues = map snd COURT_FAX_MAP"

definition textBefore :: "jstr \<Rightarrow> nat \<Rightarrow> jstr" where
  "textBefore t idx = substring t (max 0 (int idx - 200)) (int idx)"

definition isNearPlaintiffLawyer :: "jstr \<Rightarrow> nat \<Rightarrow> bool" where
  "isNearPlaintiffLawyer t idx =
     (testRx nearPlaintiffCounsel (textBefore t idx)
      \<or> (testRx bengoshi (textBefore t idx) \<and> \<not> includesStr (textBefore t idx) [0x88AB, 0x544A]))"

definition isNearDefendantLawyer :: "jstr \<Rightarrow> nat \<Rightarrow> bool" where
  "isNearDefendantLawyer t idx = testRx nearDefendantCounsel (textBefore t idx)"

definition faxStep :: "config \<Rightarrow> jstr \<Rightarrow> fax_info \<Rightarrow> fax_entry \<Rightarrow> fax_info" where
  "faxStep cfg t info entry =
     (if isOwnFax cfg (fe_fax entry) then info
      else if truthy (fi_courtFaxFromPdf info)
              \<and> includesStr (fe_fax entry) (the (fi_courtFaxFromPdf info)) then info
      else
        let isKnownCourtFax = list_ex (\<lambda>cf. includesStr (fe_fax entry) cf) courtFaxValues
        in if isNearDefendantLawyer t (fe_index entry) then info
           else if isKnownCourtFax then
             (if falsy (fi_courtFaxFromPdf info)
              then info\<lparr>fi_courtFaxFromPdf := Some (fe_fax entry)\<rparr> else info)
           else if isNearPlaintiffLawyer t (fe_index entry) then
             (if falsy (fi_plaintiffLawyerFax info)
              then info\<lparr>fi_plaintiffLawyerFax := Some (fe_fax entry)\<rparr> else info)
           else
             (if falsy (fi_plaintiffLawyerFax info)
              then info\<lparr>fi_plaintiffLawyerFax := Some (fe_fax entry)\<rparr> else info))"

definition extractFaxes :: "config \<Rightarrow> jstr \<Rightarrow> fax_info option" where
  "extractFaxes cfg t =
     Option.bind (allExplicitFaxes t) (\<lambda>efs.
     Option.bind (allFaxEntries t) (\<lambda>entries.
       Some (foldl (faxStep cfg t)
               (foldl (explicitStep cfg)
                  \<lparr>fi_courtFaxFromPdf = explicitCourtFaxOf t, fi_plaintiffLawyerFax = None\<rparr> efs)
               entries)))"

subsection \<open>The whole function\<close>

text \<open>
  \<open>extractInfoFromText\<close>. The result is \<open>None\<close> when one of its \<open>while\<close> loops does
  not end. The last statement lets a court fax found in the text replace the one of
  the dictionary.
\<close>

definition extractInfoFromText :: "config \<Rightarrow> (nat \<Rightarrow> jstr) \<Rightarrow> jstr \<Rightarrow> doc_info option" where
  "extractInfoFromText cfg numStr text0 =
     (let t = normalizeText text0 in
      Option.bind (extractCourtName t) (\<lambda>court.
      Option.bind (extractCaseNumber numStr t) (\<lambda>cn.
      Option.bind (extractLawyer cfg t) (\<lambda>lawyer.
      Option.bind (extractFaxes cfg t) (\<lambda>faxes.
        Some \<lparr>courtName = court,
              courtFax = (if truthy (fi_courtFaxFromPdf faxes) then fi_courtFaxFromPdf faxes
                          else dictionaryFax court),
              caseNumber = fst cn,
              caseNumberGuessed = snd cn,
              caseName = extractCaseName t,
              plaintiffName = extractPlaintiffName t,
              defendantName = extractDefendantName t,
              plaintiffLawyer = lawyer,
              plaintiffLawyerFax = fi_plaintiffLawyerFax faxes,
              courtFaxFromPdf = fi_courtFaxFromPdf faxes\<rparr>)))))"

text \<open>The decimal digits of a natural number, the conversion for numbers below \<open>2^53\<close>.\<close>

fun decimalDigits :: "nat \<Rightarrow> nat \<Rightarrow> jstr" where
  "decimalDigits 0 n = []"
| "decimalDigits (Suc fuel) n =
     (if n < 10 then [48 + n] else decimalDigits fuel (n div 10) @ [48 + n mod 10])"

definition decimal :: "nat \<Rightarrow> jstr" where
  "decimal n = decimalDigits (Suc n) n"

section \<open>Test inputs for the field extraction\<close>

text \<open>
  A configuration without own names and fax numbers, and a text that names a court
  twice, the second time with its civil division:
  \<open>\u6771\u4eac\u5730\u65b9\u88c1\u5224\u6240\<close>, a line feed, \<open>\u6771\u4eac\u5730\u65b9\u88c1\u5224\u6240\u6c11\u4e8b\u7b2c2\u90e8\<close>.
\<close>

definition exCfg :: config where
  "exCfg = \<lparr>lawyerNames = [], faxNumbers = []\<rparr>"



text \<open>
  A configuration with one own fax number; a text with two labelled fax numbers, the
  first of them the own one: \<open>\u5c71\u7530(FAX 06-1111-1111)\<close>, a line feed,
  \<open>\u7530\u4e2d(FAX 03-2222-3333)\<close>; and the text of the two phrases of the fax-role property,
  \<open>\u88ab\u544a\u8a34\u8a1f\u4ee3\u7406\u4eba FAX 03-0000-0000\<close>, a line feed, \<open>\u539f\u544a\u8a34\u8a1f\u4ee3\u7406\u4eba FAX 06-1111-1111\<close>.
\<close>

definition exOwnCfg :: config where
  "exOwnCfg = \<lparr>lawyerNames = [], faxNumbers = [js ''06-1111-1111'']\<rparr>"

definition exOwnText :: jstr where
  "exOwnText = [0x5C71, 0x7530, 0x0028, 0x0046, 0x0041, 0x0058, 0x0020, 0x0030, 0x0036, 0x002D, 0x0031, 0x0031, 0x0031, 0x0031, 0x002D, 0x0031, 0x0031, 0x0031, 0x0031, 0x0029, 0x000A, 0x7530, 0x4E2D, 0x0028, 0x0046, 0x0041, 0x0058, 0x0020, 0x0030, 0x0033, 0x002D, 0x0032, 0x0032, 0x0032, 0x0032, 0x002D, 0x0033, 0x0033, 0x0033, 0x0033, 0x0029]"

definition exTwoFaxText :: jstr where
  "exTwoFaxText = [0x88AB, 0x544A, 0x8A34, 0x8A1F, 0x4EE3, 0x7406, 0x4EBA, 0x0020, 0x0046, 0x0041, 0x0058, 0x0020, 0x0030, 0x0033, 0x002D, 0x0030, 0x0030, 0x0030, 0x0030, 0x002D, 0x0030, 0x0030, 0x0030, 0x0030, 0x000A, 0x539F, 0x544A, 0x8A34, 0x8A1F, 0x4EE3, 0x7406, 0x4EBA, 0x0020, 0x0046, 0x0041, 0x0058, 0x0020, 0x0030, 0x0036, 0x002D, 0x0031, 0x0031, 0x0031, 0x0031, 0x002D, 0x0031, 0x0031, 0x0031, 0x0031]"

text \<open>The invariant of the two fax loops: the counsel fax, once set, is no own number.\<close>

definition faxNotOwn :: "config \<Rightarrow> fax_info \<Rightarrow> bool" where
  "faxNotOwn cfg info =
     (\<forall>v. fi_plaintiffLawyerFax info = Some v \<longrightarrow> \<not> isOwnFax cfg v)"


text \<open>
  Two texts for the counsel name. In the first the formal line captures
  \<open>\u77f3 \u53e3 \u4fca \u4e00 \u77e5\<close> and a second line names \<open>\u77f3\u53e3\<close>:
  \<open>\u539f\u544a\u8a34\u8a1f\u4ee3\u7406\u4eba\u5f01\u8b77\u58eb \u77f3 \u53e3 \u4fca \u4e00 \u77e5\<close>, a line feed, \<open>\u5f01\u8b77\u58eb \u77f3\u53e3\<close>.
  In the second the other candidate has four characters:
  \<open>\u539f\u544a\u8a34\u8a1f\u4ee3\u7406\u4eba\u5f01\u8b77\u58eb \u77f3\u53e3\u4fca\u4e00\u77e5\<close>, a line feed, \<open>\u5f01\u8b77\u58eb \u77f3\u53e3\u4fca\u4e00 \u5b9b\<close>.
\<close>

definition exTrimText :: jstr where
  "exTrimText = [0x539F, 0x544A, 0x8A34, 0x8A1F, 0x4EE3, 0x7406, 0x4EBA, 0x5F01, 0x8B77, 0x58EB, 0x0020, 0x77F3, 0x0020, 0x53E3, 0x0020, 0x4FCA, 0x0020, 0x4E00, 0x0020, 0x77E5, 0x000A, 0x5F01, 0x8B77, 0x58EB, 0x0020, 0x77F3, 0x53E3]"

definition exNoTrimText :: jstr where
  "exNoTrimText = [0x539F, 0x544A, 0x8A34, 0x8A1F, 0x4EE3, 0x7406, 0x4EBA, 0x5F01, 0x8B77, 0x58EB, 0x0020, 0x77F3, 0x53E3, 0x4FCA, 0x4E00, 0x77E5, 0x000A, 0x5F01, 0x8B77, 0x58EB, 0x0020, 0x77F3, 0x53E3, 0x4FCA, 0x4E00, 0x0020, 0x5B9B]"

text \<open>The name that wins the ranking, before the trailing character is looked at.\<close>

definition winner :: "candidate list \<Rightarrow> jstr" where
  "winner cands = cand_name (hd (sortBy byRank (uniqueCandidates cands)))"

section \<open>Properties of the run-safe substitution\<close>



lemma indexOf_None: "indexOf s sub = None \<Longrightarrow> \<not> (\<exists>p q. s = p @ sub @ q)"
proof (induction s)
  case Nil
  then show ?case by (simp split: if_splits)
next
  case (Cons c cs)
  from Cons.prems have np: "\<not> prefix sub (c # cs)" and n: "indexOf cs sub = None"
    by (auto split: if_splits)
  show ?case
  proof
    assume "\<exists>p q. c # cs = p @ sub @ q"
    then obtain p q where pq: "c # cs = p @ sub @ q" by blast
    show False
    proof (cases p)
      case Nil
      with pq np show False by (simp add: prefix_def)
    next
      case (Cons a p')
      with pq have "cs = p' @ sub @ q" by simp
      with Cons.IH[OF n] show False by blast
    qed
  qed
qed



lemma textsOf_simps [simp]: "textsOf [] = []" "textsOf ((a, t, i) # ws) = t # textsOf ws"
  by (simp_all add: textsOf_def)








lemma runsAt_simps [simp]:
  "runsAt k [] = []"
  "runsAt k (Markup m # rest) = runsAt (Suc k) rest"
  "runsAt k (WT a t # rest) = (a, t) # runsAt (Suc k) rest"
  by (simp_all add: runsAt_def)

lemma runsAt_index: "runsAt k para = runsAt 0 para"
proof (induction para arbitrary: k)
  case Nil
  then show ?case by simp
next
  case (Cons x xs)
  show ?case
  proof (cases x)
    case (Markup m)
    then show ?thesis using Cons.IH[of "Suc k"] Cons.IH[of "Suc 0"] by simp
  next
    case (WT a t)
    then show ?thesis using Cons.IH[of "Suc k"] Cons.IH[of "Suc 0"] by simp
  qed
qed

lemma textsOf_runsAt: "textsOf (collectWt k para) = map snd (runsAt k para)"
  by (simp add: textsOf_def runsAt_def split_def)






























section \<open>Properties of the receipt page search and of the strike target\<close>

lemma scanLoop_stop:
  "(\<forall>q\<in>set xs. pageScore runOcr q < 50) \<Longrightarrow> pageScore runOcr p \<ge> 50 \<Longrightarrow>
   scanLoop runOcr (xs @ p # ys) st scanned = (p, Some (runOcr p), scanned @ xs @ [p])"
proof (induction xs arbitrary: st scanned)
  case Nil
  then show ?case by (simp add: pageScore_def Let_def)
next
  case (Cons x xs)
  from Cons.prems have x: "\<not> scoreReceiptPage (words (runOcr x)) \<ge> 50"
    and rest: "\<forall>q\<in>set xs. pageScore runOcr q < 50" by (auto simp: pageScore_def)
  show ?case
    using x Cons.IH[OF rest Cons.prems(2)] by (simp add: Let_def)
qed

lemma scanLoop_all:
  "(\<forall>q\<in>set ps. pageScore runOcr q < 50) \<Longrightarrow> bestOf runOcr seen st \<Longrightarrow>
   \<exists>st'. scanLoop runOcr ps st scanned = (bestPageNum st', bestOcr st', scanned @ ps)
        \<and> bestOf runOcr (seen @ ps) st'"
proof (induction ps arbitrary: st scanned seen)
  case Nil
  then show ?case by auto
next
  case (Cons p ps)
  let ?sc = "pageScore runOcr p"
  let ?st' = "if exceeds ?sc (bestScore st)
                 then \<lparr>bestPageNum = p, bestOcr = Some (runOcr p), bestScore = Some ?sc\<rparr>
                 else st"
  from Cons.prems have lt: "\<not> ?sc \<ge> 50" and rest: "\<forall>q\<in>set ps. pageScore runOcr q < 50"
    by auto
  have inv: "bestOf runOcr (seen @ [p]) ?st'"
  proof (cases "seen = []")
    case True
    with Cons.prems(2) show ?thesis by (simp add: bestOf_def exceeds_def)
  next
    case False
    with Cons.prems(2) show ?thesis
      by (auto simp: bestOf_def exceeds_def)
  qed
  have step: "scanLoop runOcr (p # ps) st scanned = scanLoop runOcr ps ?st' (scanned @ [p])"
    using lt by (simp add: Let_def pageScore_def)
  from Cons.IH[OF rest inv, of "scanned @ [p]"] show ?case
    unfolding step by simp
qed

lemma exOcr_score: "pageScore exOcr p = (if p = 4 then 50 else 0)"
  by (simp add: pageScore_def exOcr_def scoreReceiptPage_def findReceiptLabel_def mkWord_def
      includesStr_def kJuryousho_def kJuryou_def kReiwa_def kDairinin_def kJu_def Let_def)

lemma exOcrNone_score: "pageScore exOcrNone p = (if p = 3 then 10 else 0)"
  by (simp add: pageScore_def exOcrNone_def scoreReceiptPage_def findReceiptLabel_def mkWord_def
      includesStr_def kJuryousho_def kJuryou_def kReiwa_def kDairinin_def kJu_def Let_def)

lemma scanOrder_5: "scanOrder 5 = [1, 5, 2, 3, 4]"
  by (simp add: scanOrder_def upt_rec)


text \<open>
  Claim C3. For a document of two or more pages the scan order is first page, last
  page, then pages 2 to the one before the last. If the page \<open>p\<close> is the first in
  that order whose score is 50 or more, \<open>findReceiptPage\<close> returns \<open>p\<close> with the OCR
  result of \<open>p\<close>, and the pages handed to the OCR are exactly those up to and
  including \<open>p\<close>. If no page scores 50 or more, all pages are scanned and the page
  returned has the highest score of all. For a single page, page 1 is returned at once.
\<close>

theorem findReceiptPage_scan:
  "(2 \<le> totalPages \<longrightarrow> scanOrder totalPages = 1 # totalPages # [2..<totalPages])
   \<and> (2 \<le> totalPages \<and> scanOrder totalPages = xs @ p # ys
        \<and> (\<forall>q\<in>set xs. pageScore runOcr q < 50) \<and> pageScore runOcr p \<ge> 50
      \<longrightarrow> findReceiptPage runOcr totalPages = (p, Some (runOcr p), xs @ [p]))
   \<and> (2 \<le> totalPages \<and> (\<forall>q\<in>set (scanOrder totalPages). pageScore runOcr q < 50)
      \<longrightarrow> (\<exists>b. findReceiptPage runOcr totalPages = (b, Some (runOcr b), scanOrder totalPages)
              \<and> b \<in> set (scanOrder totalPages)
              \<and> (\<forall>q\<in>set (scanOrder totalPages). pageScore runOcr q \<le> pageScore runOcr b)))
   \<and> findReceiptPage runOcr 1 = (1, Some (runOcr 1), [1])"
proof (intro conjI impI)
  show "findReceiptPage runOcr 1 = (1, Some (runOcr 1), [1])"
    by (simp add: findReceiptPage_def)
next
  assume "2 \<le> totalPages"
  then show "scanOrder totalPages = 1 # totalPages # [2..<totalPages]"
    by (simp add: scanOrder_def)
next
  assume h: "2 \<le> totalPages \<and> scanOrder totalPages = xs @ p # ys
        \<and> (\<forall>q\<in>set xs. pageScore runOcr q < 50) \<and> pageScore runOcr p \<ge> 50"
  then have "totalPages \<noteq> 1" by simp
  with h scanLoop_stop[of xs runOcr p ys] show
    "findReceiptPage runOcr totalPages = (p, Some (runOcr p), xs @ [p])"
    by (simp add: findReceiptPage_def)
next
  assume h: "2 \<le> totalPages \<and> (\<forall>q\<in>set (scanOrder totalPages). pageScore runOcr q < 50)"
  let ?init = "\<lparr>bestPageNum = 1, bestOcr = None, bestScore = None\<rparr>"
  have ne: "scanOrder totalPages \<noteq> []" by (simp add: scanOrder_def)
  have "bestOf runOcr [] ?init" by (simp add: bestOf_def)
  from scanLoop_all[OF _ this, of "scanOrder totalPages" "[]"] h
  obtain st' where st': "scanLoop runOcr (scanOrder totalPages) ?init []
        = (bestPageNum st', bestOcr st', scanOrder totalPages)"
    "bestOf runOcr (scanOrder totalPages) st'" by auto
  from h have "totalPages \<noteq> 1" by simp
  with st' ne show "\<exists>b. findReceiptPage runOcr totalPages = (b, Some (runOcr b), scanOrder totalPages)
              \<and> b \<in> set (scanOrder totalPages)
              \<and> (\<forall>q\<in>set (scanOrder totalPages). pageScore runOcr q \<le> pageScore runOcr b)"
    by (intro exI[of _ "bestPageNum st'"]) (simp add: findReceiptPage_def bestOf_def)
qed

theorem findReceiptPage_scan_witness:
  "((2::nat) \<le> 5 \<and> scanOrder 5 = [1, 5, 2, 3] @ 4 # []
      \<and> pageScore exOcr 1 < 50 \<and> pageScore exOcr 5 < 50 \<and> pageScore exOcr 2 < 50
      \<and> pageScore exOcr 3 < 50 \<and> pageScore exOcr 4 \<ge> 50
      \<and> findReceiptPage exOcr 5 = (4, Some (exOcr 4), [1, 5, 2, 3] @ [4]))
   \<and> (scanOrder 5 = [1, 5, 2, 3, 4]
      \<and> pageScore exOcrNone 1 = 0 \<and> pageScore exOcrNone 5 = 0 \<and> pageScore exOcrNone 2 = 0
      \<and> pageScore exOcrNone 3 = 10 \<and> pageScore exOcrNone 4 = 0
      \<and> findReceiptPage exOcrNone 5 = (3, Some (exOcrNone 3), [1, 5, 2, 3, 4]))"
proof -
  have h1: "(2::nat) \<le> 5 \<and> scanOrder 5 = [1, 5, 2, 3] @ 4 # []
      \<and> (\<forall>q\<in>set [1, 5, 2, 3]. pageScore exOcr q < 50) \<and> pageScore exOcr 4 \<ge> 50"
    by (simp add: exOcr_score scanOrder_5)
  have h2: "(2::nat) \<le> 5 \<and> (\<forall>q\<in>set (scanOrder 5). pageScore exOcrNone q < 50)"
    by (simp add: exOcrNone_score scanOrder_5)
  from findReceiptPage_scan[of 5 "[1, 5, 2, 3]" 4 "[]" exOcr] h1
  have r1: "findReceiptPage exOcr 5 = (4, Some (exOcr 4), [1, 5, 2, 3] @ [4])" by blast
  from findReceiptPage_scan[of 5 "[]" 0 "[]" exOcrNone] h2
  obtain b where b: "findReceiptPage exOcrNone 5 = (b, Some (exOcrNone b), scanOrder 5)"
      "b \<in> set (scanOrder 5)"
      "\<forall>q\<in>set (scanOrder 5). pageScore exOcrNone q \<le> pageScore exOcrNone b"
    by blast
  from b(3) have "pageScore exOcrNone 3 \<le> pageScore exOcrNone b"
    by (simp add: scanOrder_5)
  then have "b = 3" by (simp add: exOcrNone_score split: if_splits)
  with b(1) have r2: "findReceiptPage exOcrNone 5 = (3, Some (exOcrNone 3), [1, 5, 2, 3, 4])"
    by (simp add: scanOrder_5)
  from r1 r2 show ?thesis by (simp add: exOcr_score exOcrNone_score scanOrder_5)
qed

lemma foldl_pick:
  "(\<And>a b. f a b = a \<or> f a b = b) \<Longrightarrow> foldl f x xs \<in> set (x # xs)"
proof (induction xs arbitrary: x)
  case Nil
  then show ?case by simp
next
  case (Cons y ys)
  from Cons.prems have "f x y = x \<or> f x y = y" by blast
  with Cons.IH[OF Cons.prems, of "f x y"] show ?case by auto
qed

lemma reduce1_in:
  "xs \<noteq> [] \<Longrightarrow> (\<And>a b. f a b = a \<or> f a b = b) \<Longrightarrow> reduce1 f xs \<in> set xs"
  using foldl_pick[of f "hd xs" "tl xs"] by (cases xs) (auto simp: reduce1_def)

lemma detectGyouWord_Some:
  assumes "detectGyouWord ws imgH = Some g"
  shows "g \<in> set (filter (\<lambda>w. word_text w = kGyou) (receiptWords ws imgH))"
proof -
  let ?all = "filter (\<lambda>w. word_text w = kGyou) (receiptWords ws imgH)"
  from assms have ne: "?all \<noteq> []"
    by (auto simp: detectGyouWord_def Let_def split: if_splits)
  have top: "reduce1 (\<lambda>a b. if y1 a < y1 b then a else b) ?all \<in> set ?all"
    by (rule reduce1_in[OF ne]) simp
  have line: "reduce1 (\<lambda>a b. if x1 a > x1 b then a else b) (filter P ?all) \<in> set ?all"
    if "filter P ?all \<noteq> []" for P
    using reduce1_in[OF that, of "\<lambda>a b. if x1 a > x1 b then a else b"] by auto
  from assms ne show ?thesis
    unfolding detectGyouWord_def Let_def
    using top line
    by (auto split: option.splits if_splits simp del: set_filter)
qed

lemma detectGyouWord_None:
  assumes "\<forall>w\<in>set ws. y1 w \<ge> findReceiptSectionStart ws imgH \<longrightarrow> word_text w \<noteq> kGyou"
  shows "detectGyouWord ws imgH = None"
proof -
  from assms have "filter (\<lambda>w. word_text w = kGyou) (receiptWords ws imgH) = []"
    by (auto simp: receiptWords_def filter_empty_conv)
  then show ?thesis by (simp add: detectGyouWord_def Let_def)
qed

lemma exNearMiss_start: "findReceiptSectionStart exNearMiss 3000 = 50"
  by (simp add: findReceiptSectionStart_def findReceiptLabel_def exNearMiss_def mkWord_def
      includesStr_def kJuryousho_def kJuryou_def)

lemma exGyou_detect: "detectGyouWord exGyou 3000 = Some (mkWord 400 310 kGyou)"
  by (simp add: findReceiptSectionStart_def findReceiptLabel_def exGyou_def mkWord_def
      includesStr_def kJuryousho_def kJuryou_def detectGyouWord_def receiptWords_def Let_def
      kGyou_def kBengo_def kGoshi_def reduce1_def)

text \<open>
  Claim C4. When \<open>detectPositions\<close> finds a strike target, it is a word of the receipt
  section whose text equals the target word, never a word that merely contains it.
  When the receipt section has no such word, the strike target is absent, the \<open>gyou\<close>
  field of the result is null, and the strike step of \<open>generateReceipt\<close> draws nothing.
\<close>

theorem strike_target_exact_or_absent:
  "(detectGyouWord ws imgH = Some g \<longrightarrow>
      word_text g = kGyou \<and> g \<in> set ws \<and> y1 g \<ge> findReceiptSectionStart ws imgH)
   \<and> ((\<forall>w\<in>set ws. y1 w \<ge> findReceiptSectionStart ws imgH \<longrightarrow> word_text w \<noteq> kGyou) \<longrightarrow>
        detectGyouWord ws imgH = None
      \<and> detectPositions_gyou ws imgW imgH pgW pgH = None
      \<and> strikeStep (detectPositions_gyou ws imgW imgH pgW pgH) gyouCharW = [])"
proof (intro conjI impI)
  assume "detectGyouWord ws imgH = Some g"
  from detectGyouWord_Some[OF this]
  show "word_text g = kGyou" "g \<in> set ws" "y1 g \<ge> findReceiptSectionStart ws imgH"
    by (simp_all add: receiptWords_def)
next
  assume h: "\<forall>w\<in>set ws. y1 w \<ge> findReceiptSectionStart ws imgH \<longrightarrow> word_text w \<noteq> kGyou"
  from detectGyouWord_None[OF h] show n: "detectGyouWord ws imgH = None" .
  then show p: "detectPositions_gyou ws imgW imgH pgW pgH = None"
    by (simp add: detectPositions_gyou_def)
  then show "strikeStep (detectPositions_gyou ws imgW imgH pgW pgH) gyouCharW = []"
    by (simp add: strikeStep_def)
qed

theorem strike_target_exact_or_absent_witness:
  "(detectGyouWord exGyou 3000 = Some (mkWord 400 310 kGyou)
      \<and> word_text (mkWord 400 310 kGyou) = kGyou \<and> mkWord 400 310 kGyou \<in> set exGyou
      \<and> y1 (mkWord 400 310 kGyou) \<ge> findReceiptSectionStart exGyou 3000)
   \<and> (word_text (exNearMiss ! 0) \<noteq> kGyou \<and> word_text (exNearMiss ! 1) \<noteq> kGyou
      \<and> word_text (exNearMiss ! 2) \<noteq> kGyou \<and> word_text (exNearMiss ! 3) \<noteq> kGyou
      \<and> length exNearMiss = 4
      \<and> detectGyouWord exNearMiss 3000 = None
      \<and> detectPositions_gyou exNearMiss 2480 3000 595 842 = None
      \<and> strikeStep (detectPositions_gyou exNearMiss 2480 3000 595 842) 10 = [])"
proof -
  have texts: "word_text (exNearMiss ! 0) \<noteq> kGyou \<and> word_text (exNearMiss ! 1) \<noteq> kGyou
      \<and> word_text (exNearMiss ! 2) \<noteq> kGyou \<and> word_text (exNearMiss ! 3) \<noteq> kGyou
      \<and> length exNearMiss = 4"
    by (simp add: exNearMiss_def mkWord_def kGyou_def kJuryousho_def)
  have h2: "\<forall>w\<in>set exNearMiss. y1 w \<ge> findReceiptSectionStart exNearMiss 3000 \<longrightarrow> word_text w \<noteq> kGyou"
    by (simp add: exNearMiss_start) (simp add: exNearMiss_def mkWord_def kGyou_def kJuryousho_def)
  from strike_target_exact_or_absent[of exGyou 3000 "mkWord 400 310 kGyou"] exGyou_detect
  have r1: "word_text (mkWord 400 310 kGyou) = kGyou \<and> mkWord 400 310 kGyou \<in> set exGyou
      \<and> y1 (mkWord 400 310 kGyou) \<ge> findReceiptSectionStart exGyou 3000" by blast
  from strike_target_exact_or_absent[of exNearMiss 3000 _ 2480 595 842 10] h2
  have r2: "detectGyouWord exNearMiss 3000 = None
      \<and> detectPositions_gyou exNearMiss 2480 3000 595 842 = None
      \<and> strikeStep (detectPositions_gyou exNearMiss 2480 3000 595 842) 10 = []" by blast
  from exGyou_detect r1 texts r2 show ?thesis by blast
qed

section \<open>Properties of the matcher\<close>


lemma capOK_None [simp]: "capOK G p w None"
  by (simp add: capOK_def)

lemma capOK_mono: "capOK G p w v \<Longrightarrow> (\<And>ch. G ch \<Longrightarrow> G' ch) \<Longrightarrow> capOK G' p w v"
  by (auto simp: capOK_def split: option.splits)

lemma capOK_append: "capOK G p w1 v \<Longrightarrow> capOK G p (w1 @ w2) v"
proof (cases v)
  case None
  then show ?thesis by simp
next
  case (Some ab)
  obtain a b where ab: "ab = (a, b)" by (cases ab)
  assume h: "capOK G p w1 v"
  with Some ab have b: "p \<le> a" "a \<le> b" "b \<le> p + length w1"
    and g: "\<forall>ch\<in>set (take (b - a) (drop (a - p) w1)). G ch" by (auto simp: capOK_def)
  have "take (b - a) (drop (a - p) (w1 @ w2)) = take (b - a) (drop (a - p) w1)"
    using b by simp
  with b g Some ab show ?thesis by (simp add: capOK_def)
qed

lemma capOK_shift: "capOK G (p + length w1) w2 v \<Longrightarrow> capOK G p (w1 @ w2) v"
proof (cases v)
  case None
  then show ?thesis by simp
next
  case (Some ab)
  obtain a b where ab: "ab = (a, b)" by (cases ab)
  assume h: "capOK G (p + length w1) w2 v"
  with Some ab have b: "p + length w1 \<le> a" "a \<le> b" "b \<le> p + length w1 + length w2"
    and g: "\<forall>ch\<in>set (take (b - a) (drop (a - (p + length w1)) w2)). G ch" by (auto simp: capOK_def)
  have "a - p - length w1 = a - (p + length w1)" by simp
  then have "take (b - a) (drop (a - p) (w1 @ w2)) = take (b - a) (drop (a - (p + length w1)) w2)"
    using b by simp
  with b g Some ab show ?thesis by (simp add: capOK_def)
qed

lemma span_refl: "span A 0 ks G x x"
  by (simp add: span_def)

lemma span_mono:
  assumes "span A n ks G x y" "\<And>ch. A ch \<Longrightarrow> A' ch" "n' \<le> n" "set ks \<subseteq> set ks'"
    "\<And>k ch. G k ch \<Longrightarrow> G' k ch"
  shows "span A' n' ks' G' x y"
proof -
  from assms(1) obtain w where w: "fst (snd x) = w @ fst (snd y)" "fst y = fst x + length w"
    "\<forall>ch\<in>set w. A ch" "n \<le> length w"
    "\<forall>k. snd (snd y) k = snd (snd x) k \<or> (k \<in> set ks \<and> capOK (G k) (fst x) w (snd (snd y) k))"
    by (auto simp: span_def)
  have "\<forall>k. snd (snd y) k = snd (snd x) k \<or> (k \<in> set ks' \<and> capOK (G' k) (fst x) w (snd (snd y) k))"
  proof
    fix k
    from w(5) have "snd (snd y) k = snd (snd x) k \<or> (k \<in> set ks \<and> capOK (G k) (fst x) w (snd (snd y) k))"
      by blast
    then show "snd (snd y) k = snd (snd x) k \<or> (k \<in> set ks' \<and> capOK (G' k) (fst x) w (snd (snd y) k))"
      using assms(4) capOK_mono[of "G k" "fst x" w "snd (snd y) k" "G' k"] assms(5) by blast
  qed
  with w assms(2,3) show ?thesis unfolding span_def by (intro exI[of _ w]) auto
qed

lemma span_trans:
  assumes "span A n1 ks G x y" "span A n2 ks G y z"
  shows "span A (n1 + n2) ks G x z"
proof -
  from assms(1) obtain w1 where w1: "fst (snd x) = w1 @ fst (snd y)" "fst y = fst x + length w1"
    "\<forall>ch\<in>set w1. A ch" "n1 \<le> length w1"
    "\<forall>k. snd (snd y) k = snd (snd x) k \<or> (k \<in> set ks \<and> capOK (G k) (fst x) w1 (snd (snd y) k))"
    by (auto simp: span_def)
  from assms(2) obtain w2 where w2: "fst (snd y) = w2 @ fst (snd z)" "fst z = fst y + length w2"
    "\<forall>ch\<in>set w2. A ch" "n2 \<le> length w2"
    "\<forall>k. snd (snd z) k = snd (snd y) k \<or> (k \<in> set ks \<and> capOK (G k) (fst y) w2 (snd (snd z) k))"
    by (auto simp: span_def)
  have caps: "\<forall>k. snd (snd z) k = snd (snd x) k
      \<or> (k \<in> set ks \<and> capOK (G k) (fst x) (w1 @ w2) (snd (snd z) k))"
  proof
    fix k
    from w2(5) consider "snd (snd z) k = snd (snd y) k"
      | "k \<in> set ks" "capOK (G k) (fst y) w2 (snd (snd z) k)" by blast
    then show "snd (snd z) k = snd (snd x) k
      \<or> (k \<in> set ks \<and> capOK (G k) (fst x) (w1 @ w2) (snd (snd z) k))"
    proof cases
      case 1
      from w1(5) consider "snd (snd y) k = snd (snd x) k"
        | "k \<in> set ks" "capOK (G k) (fst x) w1 (snd (snd y) k)" by blast
      then show ?thesis
      proof cases
        case 1
        with \<open>snd (snd z) k = snd (snd y) k\<close> show ?thesis by simp
      next
        case 2
        with \<open>snd (snd z) k = snd (snd y) k\<close> capOK_append[of "G k" "fst x" w1 "snd (snd y) k" w2]
        show ?thesis by simp
      qed
    next
      case 2
      with w1(2) capOK_shift[of "G k" "fst x" w1 w2 "snd (snd z) k"] show ?thesis by simp
    qed
  qed
  show ?thesis unfolding span_def
    using w1 w2 caps by (intro exI[of _ "w1 @ w2"]) auto
qed

lemma spanOK_atom:
  "alpha r x \<Longrightarrow> minLen r \<le> 1 \<Longrightarrow> spanOK r (p, x # xs, cs) (Suc p, xs, cs)"
  unfolding spanOK_def span_def by (intro exI[of _ "[x]"]) simp

lemma spanOK_empty: "minLen r = 0 \<Longrightarrow> spanOK r x x"
  unfolding spanOK_def using span_refl[of "alpha r" "groupsOf r" "galpha r" x] by simp


lemma span_clear:
  assumes "span A n ks G (clearCaps ks x) y"
  shows "span A n ks G x y"
proof -
  obtain p rest cs where x: "x = (p, rest, cs)" by (cases x)
  from assms x obtain w where w: "rest = w @ fst (snd y)" "fst y = p + length w"
    "\<forall>ch\<in>set w. A ch" "n \<le> length w"
    "\<forall>k. snd (snd y) k = (if k \<in> set ks then None else cs k)
          \<or> (k \<in> set ks \<and> capOK (G k) p w (snd (snd y) k))"
    by (auto simp: span_def)
  have "\<forall>k. snd (snd y) k = cs k \<or> (k \<in> set ks \<and> capOK (G k) p w (snd (snd y) k))"
  proof
    fix k
    from w(5) have "snd (snd y) k = (if k \<in> set ks then None else cs k)
          \<or> (k \<in> set ks \<and> capOK (G k) p w (snd (snd y) k))" by blast
    then show "snd (snd y) k = cs k \<or> (k \<in> set ks \<and> capOK (G k) p w (snd (snd y) k))"
      by (cases "k \<in> set ks") auto
  qed
  with w x show ?thesis unfolding span_def by (intro exI[of _ w]) simp
qed

lemma repM_span:
  assumes m: "\<And>d x z. m d x = Some z \<Longrightarrow> \<exists>y. span A n ks G x y \<and> d y = Some z"
  shows "repM m g fuel mn c x = Some z \<Longrightarrow>
         \<exists>y. span A (if mn \<noteq> 0 \<and> fuel \<noteq> 0 then n else 0) ks G x y \<and> c y = Some z"
proof (induction fuel arbitrary: mn x)
  case 0
  obtain p rest cs where x: "x = (p, rest, cs)" by (cases x)
  with 0 have "c x = Some z" by simp
  then show ?case using span_refl[of A ks G x] by (intro exI[of _ x]) simp
next
  case (Suc k)
  obtain p rest cs where x: "x = (p, rest, cs)" by (cases x)
  let ?d = "\<lambda>y. if fst y = p then None else repM m g k 0 c y"
  have tail: "\<exists>y. span A 0 ks G y1 y \<and> c y = Some z" if "repM m g k mn' c y1 = Some z" for y1 mn'
  proof -
    from Suc.IH[OF that] obtain y where "span A (if mn' \<noteq> 0 \<and> k \<noteq> 0 then n else 0) ks G y1 y"
      "c y = Some z" by blast
    then show ?thesis using span_mono[of A _ ks G y1 y A 0 ks G] by (intro exI[of _ y]) simp
  qed
  have iter: "\<exists>y. span A n ks G x y \<and> c y = Some z" if "m (\<lambda>y. repM m g k mn' c y) x = Some z" for mn'
  proof -
    from m[OF that] obtain y1 where y1: "span A n ks G x y1" "repM m g k mn' c y1 = Some z" by blast
    from tail[OF y1(2)] obtain y where y: "span A 0 ks G y1 y" "c y = Some z" by blast
    from span_trans[OF y1(1) y(1)] y(2) show ?thesis by (intro exI[of _ y]) simp
  qed
  have iter0: "\<exists>y. span A 0 ks G x y \<and> c y = Some z" if "m ?d x = Some z"
  proof -
    from m[OF that] obtain y1 where y1: "span A n ks G x y1" "?d y1 = Some z" by blast
    from y1(2) have "repM m g k 0 c y1 = Some z" by (simp split: if_splits)
    from tail[OF this] obtain y where y: "span A 0 ks G y1 y" "c y = Some z" by blast
    from span_trans[OF y1(1) y(1)] have "span A (n + 0) ks G x y" .
    then have "span A 0 ks G x y" using span_mono[of A "n + 0" ks G x y A 0 ks G] by simp
    with y(2) show ?thesis by blast
  qed
  have stay: "\<exists>y. span A 0 ks G x y \<and> c y = Some z" if "c x = Some z"
    using that span_refl[of A ks G x] by blast
  show ?case
  proof (cases "mn = 0")
    case False
    with Suc.prems x have "m (\<lambda>y. repM m g k (mn - 1) c y) x = Some z" by simp
    from iter[OF this] False show ?thesis by simp
  next
    case True
    let ?X = "case m ?d x of Some z' \<Rightarrow> Some z' | None \<Rightarrow> c x"
    let ?Y = "case c x of Some z' \<Rightarrow> Some z' | None \<Rightarrow> m ?d x"
    have e: "repM m g (Suc k) mn c x = (if g then ?X else ?Y)"
      unfolding x True by simp
    from Suc.prems e have ifeq: "(if g then ?X else ?Y) = Some z" by (simp only:)
    have "m ?d x = Some z \<or> c x = Some z"
    proof (cases g)
      case True
      from ifeq[unfolded if_P[OF True]] show ?thesis by (cases "m ?d x") simp_all
    next
      case False
      from ifeq[unfolded if_not_P[OF False]] show ?thesis by (cases "c x") simp_all
    qed
    with iter0 stay True show ?thesis by auto
  qed
qed

lemma rmatch_span:
  "rmatch r c x = Some z \<Longrightarrow> \<exists>y. spanOK r x y \<and> c y = Some z"
proof (induction r arbitrary: c x z)
  case (Chr a)
  obtain p rest cs where x: "x = (p, rest, cs)" by (cases x)
  with Chr obtain xs where "rest = a # xs" "c (Suc p, xs, cs) = Some z"
    by (auto split: list.splits if_splits)
  with x spanOK_atom[of "Chr a" a p xs cs] show ?case
    by (intro exI[of _ "(Suc p, xs, cs)"]) simp
next
  case (Cls rs)
  obtain p rest cs where x: "x = (p, rest, cs)" by (cases x)
  with Cls obtain ch xs where "rest = ch # xs" "inCls rs ch" "c (Suc p, xs, cs) = Some z"
    by (auto split: list.splits if_splits)
  with x spanOK_atom[of "Cls rs" ch p xs cs] show ?case
    by (intro exI[of _ "(Suc p, xs, cs)"]) simp
next
  case (NCls rs)
  obtain p rest cs where x: "x = (p, rest, cs)" by (cases x)
  with NCls obtain ch xs where "rest = ch # xs" "\<not> inCls rs ch" "c (Suc p, xs, cs) = Some z"
    by (auto split: list.splits if_splits)
  with x spanOK_atom[of "NCls rs" ch p xs cs] show ?case
    by (intro exI[of _ "(Suc p, xs, cs)"]) simp
next
  case Eps
  obtain p rest cs where x: "x = (p, rest, cs)" by (cases x)
  with Eps spanOK_empty[of Eps x] show ?case by (intro exI[of _ x]) simp
next
  case (Seq a b)
  obtain p rest cs where x: "x = (p, rest, cs)" by (cases x)
  with Seq.prems have "rmatch a (\<lambda>y. rmatch b c y) x = Some z" by simp
  from Seq.IH(1)[OF this] obtain y1 where y1: "spanOK a x y1" "rmatch b c y1 = Some z" by blast
  from Seq.IH(2)[OF y1(2)] obtain y2 where y2: "spanOK b y1 y2" "c y2 = Some z" by blast
  have s1: "span (alpha (Seq a b)) (minLen a) (groupsOf (Seq a b)) (galpha (Seq a b)) x y1"
    using y1(1) unfolding spanOK_def by (rule span_mono) auto
  have s2: "span (alpha (Seq a b)) (minLen b) (groupsOf (Seq a b)) (galpha (Seq a b)) y1 y2"
    using y2(1) unfolding spanOK_def by (rule span_mono) auto
  from span_trans[OF s1 s2] have "spanOK (Seq a b) x y2" by (simp add: spanOK_def)
  with y2(2) show ?case by blast
next
  case (Alt a b)
  obtain p rest cs where x: "x = (p, rest, cs)" by (cases x)
  with Alt.prems have "rmatch a c x = Some z \<or> rmatch b c x = Some z"
    by (auto split: option.splits)
  then show ?case
  proof
    assume "rmatch a c x = Some z"
    from Alt.IH(1)[OF this] obtain y where y: "spanOK a x y" "c y = Some z" by blast
    have "spanOK (Alt a b) x y"
      using y(1) unfolding spanOK_def by (rule span_mono) auto
    with y(2) show ?thesis by blast
  next
    assume "rmatch b c x = Some z"
    from Alt.IH(2)[OF this] obtain y where y: "spanOK b x y" "c y = Some z" by blast
    have "spanOK (Alt a b) x y"
      using y(1) unfolding spanOK_def by (rule span_mono) auto
    with y(2) show ?thesis by blast
  qed
next
  case (Rep g mn mx r)
  obtain p rest cs where x: "x = (p, rest, cs)" by (cases x)
  let ?m = "\<lambda>d y. rmatch r d (clearCaps (groupsOf r) y)"
  let ?fuel = "case mx of Some k \<Rightarrow> k | None \<Rightarrow> mn + length rest"
  have m: "\<exists>y. span (alpha r) (minLen r) (groupsOf r) (galpha r) x' y \<and> d y = Some z'"
    if "?m d x' = Some z'" for d x' z'
  proof -
    from Rep.IH[OF that] obtain y where y: "spanOK r (clearCaps (groupsOf r) x') y" "d y = Some z'"
      by blast
    from y(1) have "span (alpha r) (minLen r) (groupsOf r) (galpha r) x' y"
      unfolding spanOK_def by (rule span_clear)
    with y(2) show ?thesis by blast
  qed
  from Rep.prems x have "repM ?m g ?fuel mn c x = Some z" by simp
  from repM_span[of ?m "alpha r" "minLen r" "groupsOf r" "galpha r" g ?fuel mn c x z, OF m this]
  obtain y where y: "span (alpha r) (if mn \<noteq> 0 \<and> ?fuel \<noteq> 0 then minLen r else 0) (groupsOf r) (galpha r) x y"
    "c y = Some z" by blast
  have "minLen (Rep g mn mx r) \<le> (if mn \<noteq> 0 \<and> ?fuel \<noteq> 0 then minLen r else 0)"
    by (cases mx) auto
  with y(1) have "spanOK (Rep g mn mx r) x y"
    unfolding spanOK_def using span_mono[of "alpha r" _ "groupsOf r" "galpha r" x y
        "alpha (Rep g mn mx r)" "minLen (Rep g mn mx r)" "groupsOf (Rep g mn mx r)" "galpha (Rep g mn mx r)"]
    by simp
  with y(2) show ?case by blast
next
  case (Grp k r)
  obtain p rest cs where x: "x = (p, rest, cs)" by (cases x)
  let ?c = "\<lambda>(p', rest', cs'). c (p', rest', cs'(k \<mapsto> (p, p')))"
  from Grp.prems x have "rmatch r ?c x = Some z" by simp
  from Grp.IH[OF this] obtain y1 where y1: "spanOK r x y1" "?c y1 = Some z" by blast
  obtain p' rest' cs' where y1e: "y1 = (p', rest', cs')" by (cases y1)
  let ?y = "(p', rest', cs'(k \<mapsto> (p, p')))"
  from y1(2) y1e have cy: "c ?y = Some z" by simp
  from y1(1) x y1e obtain w where w: "rest = w @ rest'" "p' = p + length w"
    "\<forall>ch\<in>set w. alpha r ch" "minLen r \<le> length w"
    "\<forall>j. cs' j = cs j \<or> (j \<in> set (groupsOf r) \<and> capOK (galpha r j) p w (cs' j))"
    by (auto simp: spanOK_def span_def)
  have caps: "\<forall>j. (cs'(k \<mapsto> (p, p'))) j = cs j
       \<or> (j \<in> set (groupsOf (Grp k r)) \<and> capOK (galpha (Grp k r) j) p w ((cs'(k \<mapsto> (p, p'))) j))"
  proof
    fix j
    show "(cs'(k \<mapsto> (p, p'))) j = cs j
       \<or> (j \<in> set (groupsOf (Grp k r)) \<and> capOK (galpha (Grp k r) j) p w ((cs'(k \<mapsto> (p, p'))) j))"
    proof (cases "j = k")
      case True
      have "capOK (galpha (Grp k r) k) p w (Some (p, p'))"
        using w(2,3) by (simp add: capOK_def)
      with True show ?thesis by simp
    next
      case False
      from w(5) have "cs' j = cs j \<or> (j \<in> set (groupsOf r) \<and> capOK (galpha r j) p w (cs' j))"
        by blast
      with False capOK_mono[of "galpha r j" p w "cs' j" "galpha (Grp k r) j"] show ?thesis
        by auto
    qed
  qed
  have "spanOK (Grp k r) x ?y"
    unfolding spanOK_def span_def using x w caps by (intro exI[of _ w]) simp
  with cy show ?case by blast
next
  case (NegLook r)
  obtain p rest cs where x: "x = (p, rest, cs)" by (cases x)
  with NegLook.prems have "c x = Some z" by (auto split: option.splits)
  with spanOK_empty[of "NegLook r" x] show ?case by (intro exI[of _ x]) simp
next
  case Bol
  obtain p rest cs where x: "x = (p, rest, cs)" by (cases x)
  with Bol have "c x = Some z" by (auto split: if_splits)
  with spanOK_empty[of Bol x] show ?case by (intro exI[of _ x]) simp
next
  case Eol
  obtain p rest cs where x: "x = (p, rest, cs)" by (cases x)
  with Eol have "c x = Some z" by (auto split: if_splits)
  with spanOK_empty[of Eol x] show ?case by (intro exI[of _ x]) simp
qed


lemma rmatch_resultOK:
  assumes "rmatch r Some (p, drop p s, Map.empty) = Some (e, rest', cs)" "p \<le> length s"
  shows "resultOK r s p \<lparr>m_index = p, m_end = e, m_rest = rest', m_caps = cs\<rparr>"
proof -
  from rmatch_span[OF assms(1)] obtain y where y: "spanOK r (p, drop p s, Map.empty) y"
    "Some y = Some (e, rest', cs)" by blast
  then have "spanOK r (p, drop p s, Map.empty) (e, rest', cs)" by simp
  then obtain w where w: "drop p s = w @ rest'" "e = p + length w"
    "\<forall>ch\<in>set w. alpha r ch" "minLen r \<le> length w"
    "\<forall>k. cs k = None \<or> (k \<in> set (groupsOf r) \<and> capOK (galpha r k) p w (cs k))"
    by (auto simp: spanOK_def span_def)
  have s: "s = take p s @ w @ rest'" using w(1) by (metis append_take_drop_id)
  have len: "length s = p + length w + length rest'"
    using arg_cong[OF s, of length] assms(2) by simp
  have rest: "rest' = drop e s"
    using w(1,2) by (metis append_eq_conv_conj drop_drop add.commute)
  have m: "take (e - p) (drop p s) = w" using w(1,2) by simp
  have grp: "\<forall>ch\<in>set g. galpha r k ch" if "cs k = Some (a, b)" "g = take (b - a) (drop a s)" for k a b g
  proof -
    from w(5) that(1) have c: "capOK (galpha r k) p w (Some (a, b))" by (metis option.distinct(1))
    then have b: "p \<le> a" "a \<le> b" "b \<le> p + length w"
      and g: "\<forall>ch\<in>set (take (b - a) (drop (a - p) w)). galpha r k ch"
      by (auto simp: capOK_def)
    have "drop a s = drop (a - p) (drop p s)" using b by simp
    also have "\<dots> = drop (a - p) w @ rest'" using w(1) b by simp
    finally have "take (b - a) (drop a s) = take (b - a) (drop (a - p) w)" using b by simp
    with g that(2) show ?thesis by simp
  qed
  show ?thesis
    unfolding resultOK_def matched_def group_def
    using w(2,3,4) len rest m grp by (auto split: option.splits)
qed

lemma resultOK_from: "resultOK r s (Suc p) m \<Longrightarrow> resultOK r s p m"
  by (simp add: resultOK_def)

lemma search_resultOK:
  "search r p (drop p s) = Some m \<Longrightarrow> p \<le> length s \<Longrightarrow> resultOK r s p m"
proof (induction "drop p s" arbitrary: p)
  case Nil
  then have d: "drop p s = []" by simp
  with Nil.prems(1) obtain e rest' cs where
    "rmatch r Some (p, drop p s, Map.empty) = Some (e, rest', cs)"
    "m = \<lparr>m_index = p, m_end = e, m_rest = rest', m_caps = cs\<rparr>"
    by (auto split: option.splits)
  with rmatch_resultOK[OF this(1) Nil.prems(2)] show ?case by simp
next
  case (Cons x xs)
  from Cons.hyps(2) have d: "drop p s = x # xs" by simp
  then have lt: "p < length s" by (metis drop_all list.distinct(1) not_le)
  from d have d': "drop (Suc p) s = xs" by (metis drop_Suc tl_drop list.sel(3))
  show ?case
  proof (cases "rmatch r Some (p, drop p s, Map.empty)")
    case None
    with Cons.prems(1) d d' have "search r (Suc p) (drop (Suc p) s) = Some m" by simp
    from Cons.hyps(1)[OF d'[symmetric] this] lt have "resultOK r s (Suc p) m" by simp
    then show ?thesis by (rule resultOK_from)
  next
    case (Some y)
    obtain e rest' cs where y: "y = (e, rest', cs)" by (cases y)
    with Some Cons.prems(1) d have "m = \<lparr>m_index = p, m_end = e, m_rest = rest', m_caps = cs\<rparr>"
      by simp
    with rmatch_resultOK[OF Some[unfolded y] Cons.prems(2)] show ?thesis by simp
  qed
qed

lemma execLoop_total:
  assumes pos: "0 < minLen r"
  shows "p \<le> length s \<Longrightarrow> length s - p < n \<Longrightarrow>
         \<exists>ms. execLoop n r p (drop p s) = Some ms \<and> (\<forall>m\<in>set ms. resultOK r s 0 m)"
proof (induction n arbitrary: p)
  case 0
  then show ?case by simp
next
  case (Suc n)
  show ?case
  proof (cases "search r p (drop p s)")
    case None
    then show ?thesis by simp
  next
    case (Some m)
    from search_resultOK[OF Some Suc.prems(1)] have ok: "resultOK r s p m" .
    then have b: "p < m_end m" "m_end m \<le> length s" "m_rest m = drop (m_end m) s"
      using pos by (auto simp: resultOK_def)
    then have "length s - m_end m < n" using Suc.prems(2) by simp
    from Suc.IH[OF b(2) this] obtain ms where
      ms: "execLoop n r (m_end m) (drop (m_end m) s) = Some ms" "\<forall>m\<in>set ms. resultOK r s 0 m"
      by blast
    have "resultOK r s 0 m" using ok by (simp add: resultOK_def)
    with Some ms b(3) show ?thesis by simp
  qed
qed

lemma execAll_total:
  assumes "0 < minLen r"
  shows "\<exists>ms. execAll r s = Some ms \<and> (\<forall>m\<in>set ms. resultOK r s 0 m)"
  using execLoop_total[OF assms, of 0 s "Suc (length s)"] by (simp add: execAll_def)

lemma matchRx_resultOK: "matchRx r s = Some m \<Longrightarrow> resultOK r s 0 m"
  using search_resultOK[of r 0 s m] by (simp add: matchRx_def)

section \<open>Properties of the field extraction\<close>


lemmas rx_defs = rxS_def rxD1_def rxAny_def rxDot_def rxNotNl_def Star_def Plus_def Opt_def
  wsR_def digitR_def cjkR_def cjkKanaR_def wideDigitR_def lparR_def rparR_def eraR_def
  symR_def caseSymbols_def matchRx_def testRx_def

lemma minLen_lit: "s \<noteq> [] \<Longrightarrow> minLen (lit s) = length s"
  by (induction s rule: lit.induct) auto

lemma minLen_alts_lit: "rs \<noteq> [] \<Longrightarrow> \<forall>s\<in>set rs. s \<noteq> [] \<Longrightarrow> 0 < minLen (alts (map lit rs))"
proof (induction rs rule: induct_list012)
  case 1
  then show ?case by simp
next
  case (2 x)
  then show ?case by (simp add: minLen_lit)
next
  case (3 x y zs)
  then show ?case by (simp add: minLen_lit)
qed

lemma minLen_courtPattern: "0 < minLen courtPattern"
proof -
  have "0 < minLen (alts (map lit cityNames))"
    by (rule minLen_alts_lit) (simp_all add: cityNames_def)
  then show ?thesis by (simp add: courtPattern_def)
qed

lemma minLen_yearRegex: "0 < minLen yearRegex"
  by (simp add: yearRegex_def)

lemma minLen_formalPattern: "0 < minLen formalPattern"
  by (simp add: formalPattern_def)

lemma minLen_senderPattern: "0 < minLen senderPattern"
  by (simp add: senderPattern_def)

lemma minLen_atePattern: "0 < minLen atePattern"
  by (simp add: atePattern_def)

lemma minLen_generalPattern: "0 < minLen generalPattern"
  by (simp add: generalPattern_def)

lemma minLen_explicitFaxRegex: "0 < minLen explicitFaxRegex"
  by (simp add: explicitFaxRegex_def)

lemma minLen_faxRegex: "0 < minLen faxRegex"
  by (simp add: faxRegex_def faxWord_def js_def)

lemma courtCandidates_total: "\<exists>cands. courtCandidates t = Some cands"
  using execAll_total[OF minLen_courtPattern, of t] by (auto simp: courtCandidates_def)

lemma extractCourtName_total: "\<exists>v. extractCourtName t = Some v"
  using courtCandidates_total[of t] by (auto simp: extractCourtName_def)

lemma caseNumberFromDisplay_total: "\<exists>v. caseNumberFromDisplay numStr t = Some v"
proof -
  from execAll_total[OF minLen_yearRegex, of t] obtain yms where "execAll yearRegex t = Some yms"
    by blast
  then show ?thesis
    by (simp add: caseNumberFromDisplay_def Let_def split: option.splits)
qed

lemma extractCaseNumber_total: "\<exists>v. extractCaseNumber numStr t = Some v"
  using caseNumberFromDisplay_total[of numStr t] by (simp add: extractCaseNumber_def Let_def)

lemma lawyerCandidates_total: "\<exists>cands. lawyerCandidates cfg t = Some cands"
proof -
  from execAll_total[OF minLen_formalPattern, of t] obtain m1 where "execAll formalPattern t = Some m1" by blast
  moreover from execAll_total[OF minLen_senderPattern, of t] obtain m2 where "execAll senderPattern t = Some m2" by blast
  moreover from execAll_total[OF minLen_atePattern, of t] obtain m3 where "execAll atePattern t = Some m3" by blast
  moreover from execAll_total[OF minLen_generalPattern, of t] obtain m4 where "execAll generalPattern t = Some m4" by blast
  ultimately show ?thesis by (simp add: lawyerCandidates_def)
qed

lemma extractLawyer_total: "\<exists>v. extractLawyer cfg t = Some v"
  using lawyerCandidates_total[of cfg t] by (auto simp: extractLawyer_def)

lemma allExplicitFaxes_total: "\<exists>efs. allExplicitFaxes t = Some efs"
  using execAll_total[OF minLen_explicitFaxRegex, of t] by (auto simp: allExplicitFaxes_def)

lemma allFaxEntries_total: "\<exists>es. allFaxEntries t = Some es"
  using execAll_total[OF minLen_faxRegex, of t] by (auto simp: allFaxEntries_def)

lemma extractFaxes_total: "\<exists>v. extractFaxes cfg t = Some v"
  using allExplicitFaxes_total[of t] allFaxEntries_total[of t] by (auto simp: extractFaxes_def)

text \<open>The function returns, and every field of the result is the field-wise function.\<close>

lemma extractInfoFromText_fields:
  "\<exists>info court cn lawyer faxes.
      extractInfoFromText cfg numStr text0 = Some info
    \<and> extractCourtName (normalizeText text0) = Some court
    \<and> extractCaseNumber numStr (normalizeText text0) = Some cn
    \<and> extractLawyer cfg (normalizeText text0) = Some lawyer
    \<and> extractFaxes cfg (normalizeText text0) = Some faxes
    \<and> courtName info = court
    \<and> courtFax info = (if truthy (fi_courtFaxFromPdf faxes) then fi_courtFaxFromPdf faxes
                        else dictionaryFax court)
    \<and> caseNumber info = fst cn
    \<and> caseNumberGuessed info = snd cn
    \<and> caseName info = extractCaseName (normalizeText text0)
    \<and> plaintiffName info = extractPlaintiffName (normalizeText text0)
    \<and> defendantName info = extractDefendantName (normalizeText text0)
    \<and> plaintiffLawyer info = lawyer
    \<and> plaintiffLawyerFax info = fi_plaintiffLawyerFax faxes
    \<and> courtFaxFromPdf info = fi_courtFaxFromPdf faxes"
proof -
  let ?t = "normalizeText text0"
  obtain court where c: "extractCourtName ?t = Some court" using extractCourtName_total by blast
  obtain cn where n: "extractCaseNumber numStr ?t = Some cn" using extractCaseNumber_total by blast
  obtain lawyer where l: "extractLawyer cfg ?t = Some lawyer" using extractLawyer_total by blast
  obtain faxes where f: "extractFaxes cfg ?t = Some faxes" using extractFaxes_total by blast
  show ?thesis
    by (simp add: extractInfoFromText_def Let_def c n l f)
qed












lemma repM_numeral:
  "repM m greedy (numeral n) mn c (p, rest, cs) =
     (if mn \<noteq> 0 then
        m (\<lambda>y. repM m greedy (pred_numeral n) (mn - 1) c y) (p, rest, cs)
      else if greedy then
        (case m (\<lambda>y. if fst y = p then None else repM m greedy (pred_numeral n) 0 c y) (p, rest, cs) of
           Some z \<Rightarrow> Some z
         | None \<Rightarrow> c (p, rest, cs))
      else
        (case c (p, rest, cs) of
           Some z \<Rightarrow> Some z
         | None \<Rightarrow> m (\<lambda>y. if fst y = p then None else repM m greedy (pred_numeral n) 0 c y) (p, rest, cs)))"
  by (simp add: numeral_eq_Suc)

lemmas fax_defs = extractFaxes_def allExplicitFaxes_def allFaxEntries_def execAll_def
  explicitFaxRegex_def faxRegex_def explicitCourtFaxOf_def explicitCourtFax_def faxWord_def
  faxCharsR_def js_def groupStr_def group_def normalizeFax_def explicitStep_def faxStep_def
  isOwnFax_def includesStr_def truthy_def falsy_def courtFaxValues_def COURT_FAX_MAP_def
  isNearDefendantLawyer_def isNearPlaintiffLawyer_def textBefore_def substring_def clampIndex_def
  nearDefendantCounsel_def nearPlaintiffCounsel_def bengoshi_def Let_def repM_numeral

lemma exOwn_faxes:
  "extractFaxes exOwnCfg exOwnText =
     Some \<lparr>fi_courtFaxFromPdf = None, fi_plaintiffLawyerFax = Some (js ''03-2222-3333'')\<rparr>"
  by (simp add: exOwnCfg_def exOwnText_def fax_defs rx_defs)

lemma exTwoFax_faxes:
  "extractFaxes exCfg exTwoFaxText =
     Some \<lparr>fi_courtFaxFromPdf = None, fi_plaintiffLawyerFax = None\<rparr>"
  by (simp add: exCfg_def exTwoFaxText_def fax_defs rx_defs)


lemma explicitStep_notOwn: "faxNotOwn cfg info \<Longrightarrow> faxNotOwn cfg (explicitStep cfg info ef)"
  by (simp add: faxNotOwn_def explicitStep_def)

lemma faxStep_notOwn: "faxNotOwn cfg info \<Longrightarrow> faxNotOwn cfg (faxStep cfg t info entry)"
  by (simp add: faxNotOwn_def faxStep_def Let_def)

lemma foldl_explicitStep_notOwn:
  "faxNotOwn cfg info \<Longrightarrow> faxNotOwn cfg (foldl (explicitStep cfg) info efs)"
  by (induction efs arbitrary: info) (simp_all add: explicitStep_notOwn)

lemma foldl_faxStep_notOwn:
  "faxNotOwn cfg info \<Longrightarrow> faxNotOwn cfg (foldl (faxStep cfg t) info entries)"
  by (induction entries arbitrary: info) (simp_all add: faxStep_notOwn)

lemma extractFaxes_notOwn:
  assumes "extractFaxes cfg t = Some faxes"
  shows "faxNotOwn cfg faxes"
proof -
  from assms obtain efs entries where
    "faxes = foldl (faxStep cfg t)
               (foldl (explicitStep cfg)
                  \<lparr>fi_courtFaxFromPdf = explicitCourtFaxOf t, fi_plaintiffLawyerFax = None\<rparr> efs)
               entries"
    by (auto simp: extractFaxes_def Option.bind_eq_Some_conv)
  moreover have "faxNotOwn cfg \<lparr>fi_courtFaxFromPdf = explicitCourtFaxOf t, fi_plaintiffLawyerFax = None\<rparr>"
    by (simp add: faxNotOwn_def)
  ultimately show ?thesis
    using foldl_faxStep_notOwn foldl_explicitStep_notOwn by simp
qed

text \<open>
  Claim C10. The function returns, and when \<open>plaintiffLawyerFax\<close> is set, its value
  contains none of the configured own fax numbers: both loops test a number against
  the list before they assign it.
\<close>

theorem plaintiffLawyerFax_never_own:
  "\<exists>info. extractInfoFromText cfg numStr text0 = Some info
     \<and> (\<forall>v. plaintiffLawyerFax info = Some v \<longrightarrow>
            (\<forall>p\<in>set (faxNumbers cfg). \<not> includesStr v p))"
proof -
  from extractInfoFromText_fields[of cfg numStr text0] obtain info faxes where
    i: "extractInfoFromText cfg numStr text0 = Some info"
      "extractFaxes cfg (normalizeText text0) = Some faxes"
      "plaintiffLawyerFax info = fi_plaintiffLawyerFax faxes"
    by blast
  from extractFaxes_notOwn[OF i(2)] i(3) have
    "\<forall>v. plaintiffLawyerFax info = Some v \<longrightarrow> (\<forall>p\<in>set (faxNumbers cfg). \<not> includesStr v p)"
    by (simp add: faxNotOwn_def isOwnFax_def list_ex_iff)
  with i(1) show ?thesis by blast
qed

lemma exOwn_normal: "normalizeText exOwnText = exOwnText"
  by (simp add: normalizeText_def replaceCR_def exOwnText_def)

theorem plaintiffLawyerFax_never_own_witness:
  "\<exists>info. extractInfoFromText exOwnCfg decimal exOwnText = Some info
     \<and> plaintiffLawyerFax info = Some (js ''03-2222-3333'')
     \<and> faxNumbers exOwnCfg = [js ''06-1111-1111'']
     \<and> \<not> includesStr (js ''03-2222-3333'') (js ''06-1111-1111'')"
proof -
  from plaintiffLawyerFax_never_own[of exOwnCfg decimal exOwnText] obtain info where
    i: "extractInfoFromText exOwnCfg decimal exOwnText = Some info"
      "\<forall>v. plaintiffLawyerFax info = Some v \<longrightarrow>
            (\<forall>p\<in>set (faxNumbers exOwnCfg). \<not> includesStr v p)"
    by blast
  from extractInfoFromText_fields[of exOwnCfg decimal exOwnText] i(1) obtain faxes where
    f: "extractFaxes exOwnCfg (normalizeText exOwnText) = Some faxes"
      "plaintiffLawyerFax info = fi_plaintiffLawyerFax faxes"
    by auto
  from f(1) have "faxes = \<lparr>fi_courtFaxFromPdf = None, fi_plaintiffLawyerFax = Some (js ''03-2222-3333'')\<rparr>"
    by (simp add: exOwn_normal exOwn_faxes)
  with f(2) have v: "plaintiffLawyerFax info = Some (js ''03-2222-3333'')" by simp
  have own: "faxNumbers exOwnCfg = [js ''06-1111-1111'']" by (simp add: exOwnCfg_def)
  from i(2) v own have "\<not> includesStr (js ''03-2222-3333'') (js ''06-1111-1111'')" by simp
  with i(1) v own show ?thesis by blast
qed



lemmas lawyer_defs = lawyerCandidates_def execAll_def formalPattern_def senderPattern_def
  atePattern_def generalPattern_def formalCandidate_def senderCandidate_def ateCandidate_def
  generalCandidate_def cleanLawyerName_def trim_def isSpace_def replaceFirst_def ateSuffix_def
  honorificSuffix_def boilerplateStart_def contextBefore_def substring_def clampIndex_def
  includesStr_def groupStr_def group_def Let_def repM_numeral

lemma exTrim_candidates:
  "lawyerCandidates exCfg exTrimText = Some [\<lparr>cand_name = [0x77F3, 0x53E3, 0x4FCA, 0x4E00, 0x77E5], priority = 1\<rparr>, \<lparr>cand_name = [0x77F3, 0x53E3, 0x4FCA, 0x4E00, 0x77E5], priority = 2\<rparr>, \<lparr>cand_name = [0x77F3, 0x53E3, 0x4FCA, 0x4E00, 0x77E5], priority = 4\<rparr>, \<lparr>cand_name = [0x77F3, 0x53E3], priority = 4\<rparr>]"
  by (simp add: exCfg_def exTrimText_def lawyer_defs rx_defs)

lemma exNoTrim_candidates:
  "lawyerCandidates exCfg exNoTrimText = Some [\<lparr>cand_name = [0x77F3, 0x53E3, 0x4FCA, 0x4E00, 0x77E5], priority = 1\<rparr>, \<lparr>cand_name = [0x77F3, 0x53E3, 0x4FCA, 0x4E00, 0x77E5], priority = 2\<rparr>, \<lparr>cand_name = [0x77F3, 0x53E3, 0x4FCA, 0x4E00], priority = 3\<rparr>, \<lparr>cand_name = [0x77F3, 0x53E3, 0x4FCA, 0x4E00, 0x77E5], priority = 4\<rparr>, \<lparr>cand_name = [0x77F3, 0x53E3, 0x4FCA, 0x4E00], priority = 4\<rparr>]"
  by (simp add: exCfg_def exNoTrimText_def lawyer_defs rx_defs)


lemma set_insertBy: "set (insertBy cmp x xs) = insert x (set xs)"
  by (induction xs) auto

lemma set_foldl_insertBy:
  "set (foldl (\<lambda>acc x. insertBy cmp x acc) acc xs) = set acc \<union> set xs"
  by (induction xs arbitrary: acc) (auto simp: set_insertBy)

lemma set_sortBy: "set (sortBy cmp xs) = set xs"
  by (simp add: sortBy_def set_foldl_insertBy)

lemma sortBy_nonempty: "xs \<noteq> [] \<Longrightarrow> sortBy cmp xs \<noteq> []"
  using set_sortBy[of cmp xs] by (metis set_empty)

lemma set_uniq: "set (uniq xs) = set xs"
  by (induction xs) auto

lemma uniqueCandidates_subset: "set (uniqueCandidates cands) \<subseteq> set cands"
proof
  fix c assume "c \<in> set (uniqueCandidates cands)"
  then obtain n where n: "n \<in> set (map cand_name cands)"
    "c = hd (sortBy byPriority (filter (\<lambda>c. cand_name c = n) cands))"
    by (auto simp: uniqueCandidates_def set_uniq)
  then have ne: "filter (\<lambda>c. cand_name c = n) cands \<noteq> []"
    by (auto simp: filter_empty_conv)
  from sortBy_nonempty[OF ne] have "c \<in> set (sortBy byPriority (filter (\<lambda>c. cand_name c = n) cands))"
    using n(2) by simp
  then show "c \<in> set cands" by (simp add: set_sortBy)
qed

lemma uniqueCandidates_names:
  "cand_name ` set (uniqueCandidates cands) = cand_name ` set cands"
proof
  show "cand_name ` set (uniqueCandidates cands) \<subseteq> cand_name ` set cands"
    using uniqueCandidates_subset by blast
  show "cand_name ` set cands \<subseteq> cand_name ` set (uniqueCandidates cands)"
  proof
    fix n assume "n \<in> cand_name ` set cands"
    then have n: "n \<in> set (map cand_name cands)" by simp
    then have ne: "filter (\<lambda>c. cand_name c = n) cands \<noteq> []"
      by (auto simp: filter_empty_conv)
    let ?c = "hd (sortBy byPriority (filter (\<lambda>c. cand_name c = n) cands))"
    from sortBy_nonempty[OF ne] have "?c \<in> set (sortBy byPriority (filter (\<lambda>c. cand_name c = n) cands))"
      by simp
    then have "cand_name ?c = n" by (simp add: set_sortBy)
    moreover have "?c \<in> set (uniqueCandidates cands)"
      using n by (simp add: uniqueCandidates_def set_uniq)
    ultimately show "n \<in> cand_name ` set (uniqueCandidates cands)" by force
  qed
qed

lemma findFirst_None_iff: "findFirst P xs = None \<longleftrightarrow> (\<forall>x\<in>set xs. \<not> P x)"
  by (induction xs) auto

lemma chooseLawyer_eq:
  "chooseLawyer cands =
     (if length (winner cands) = 5
         \<and> (\<exists>c\<in>set cands. length (cand_name c) \<le> 3 \<and> prefix (cand_name c) (winner cands))
      then take 4 (winner cands) else winner cands)"
proof -
  let ?sorted = "sortBy byRank (uniqueCandidates cands)"
  let ?P = "\<lambda>c. length (cand_name c) \<le> 3 \<and> prefix (cand_name c) (winner cands)"
  have names: "cand_name ` set ?sorted = cand_name ` set cands"
    by (simp add: set_sortBy uniqueCandidates_names)
  have "(\<exists>c\<in>set ?sorted. ?P c) \<longleftrightarrow> (\<exists>n\<in>cand_name ` set ?sorted. length n \<le> 3 \<and> prefix n (winner cands))"
    by blast
  also have "\<dots> \<longleftrightarrow> (\<exists>c\<in>set cands. ?P c)" unfolding names by blast
  finally have ex: "(findFirst ?P ?sorted \<noteq> None) \<longleftrightarrow> (\<exists>c\<in>set cands. ?P c)"
    by (simp add: findFirst_None_iff)
  have sub: "substring w 0 4 = take 4 w" for w
    by (simp add: substring_def clampIndex_def Let_def min_def)
  show ?thesis
  proof (cases "findFirst ?P ?sorted")
    case None
    with ex show ?thesis by (auto simp: chooseLawyer_def winner_def Let_def)
  next
    case (Some a)
    with ex show ?thesis by (auto simp: chooseLawyer_def winner_def Let_def sub)
  qed
qed

text \<open>
  Claim C8, as amended. The function returns, and when candidates were collected,
  \<open>plaintiffLawyer\<close> is the winner of the ranking cut to its first four characters
  if the winner has exactly five characters and some collected candidate of at most
  three characters is a prefix of it, and the winner itself otherwise. The witness is
  the text in which \<open>\u77f3 \u53e3 \u4fca \u4e00 \u77e5\<close> is captured and \<open>\u77f3\u53e3\<close> is a candidate too: the
  result is \<open>\u77f3\u53e3\u4fca\u4e00\<close>.
\<close>

theorem counsel_trailing_character_trimmed:
  "\<exists>info cands.
      extractInfoFromText cfg numStr text0 = Some info
    \<and> lawyerCandidates cfg (normalizeText text0) = Some cands
    \<and> (cands \<noteq> [] \<longrightarrow>
         plaintiffLawyer info =
           Some (if length (winner cands) = 5
                    \<and> (\<exists>c\<in>set cands. length (cand_name c) \<le> 3 \<and> prefix (cand_name c) (winner cands))
                 then take 4 (winner cands) else winner cands))"
proof -
  from extractInfoFromText_fields[of cfg numStr text0] obtain info lawyer where
    i: "extractInfoFromText cfg numStr text0 = Some info"
      "extractLawyer cfg (normalizeText text0) = Some lawyer" "plaintiffLawyer info = lawyer"
    by blast
  from lawyerCandidates_total[of cfg "normalizeText text0"] obtain cands where
    c: "lawyerCandidates cfg (normalizeText text0) = Some cands" by blast
  have "cands \<noteq> [] \<longrightarrow> plaintiffLawyer info = Some (chooseLawyer cands)"
    using i(2,3) c by (auto simp: extractLawyer_def)
  with i(1) c show ?thesis unfolding chooseLawyer_eq by blast
qed

lemma exTrim_normal: "normalizeText exTrimText = exTrimText"
  by (simp add: normalizeText_def replaceCR_def exTrimText_def)

lemma exNoTrim_normal: "normalizeText exNoTrimText = exNoTrimText"
  by (simp add: normalizeText_def replaceCR_def exNoTrimText_def)

lemmas choose_defs = winner_def uniqueCandidates_def sortBy_def byRank_def byPriority_def
  isIdeal_def

lemma exTrim_winner: "winner [\<lparr>cand_name = [0x77F3, 0x53E3, 0x4FCA, 0x4E00, 0x77E5], priority = 1\<rparr>, \<lparr>cand_name = [0x77F3, 0x53E3, 0x4FCA, 0x4E00, 0x77E5], priority = 2\<rparr>, \<lparr>cand_name = [0x77F3, 0x53E3, 0x4FCA, 0x4E00, 0x77E5], priority = 4\<rparr>, \<lparr>cand_name = [0x77F3, 0x53E3], priority = 4\<rparr>] = [0x77F3, 0x53E3, 0x4FCA, 0x4E00, 0x77E5]"
  by (simp add: choose_defs)

lemma exNoTrim_winner: "winner [\<lparr>cand_name = [0x77F3, 0x53E3, 0x4FCA, 0x4E00, 0x77E5], priority = 1\<rparr>, \<lparr>cand_name = [0x77F3, 0x53E3, 0x4FCA, 0x4E00, 0x77E5], priority = 2\<rparr>, \<lparr>cand_name = [0x77F3, 0x53E3, 0x4FCA, 0x4E00], priority = 3\<rparr>, \<lparr>cand_name = [0x77F3, 0x53E3, 0x4FCA, 0x4E00, 0x77E5], priority = 4\<rparr>, \<lparr>cand_name = [0x77F3, 0x53E3, 0x4FCA, 0x4E00], priority = 4\<rparr>] = [0x77F3, 0x53E3, 0x4FCA, 0x4E00, 0x77E5]"
  by (simp add: choose_defs)


theorem counsel_trailing_character_trimmed_witness:
  "\<exists>info. extractInfoFromText exCfg decimal exTrimText = Some info
     \<and> lawyerCandidates exCfg (normalizeText exTrimText) = Some [\<lparr>cand_name = [0x77F3, 0x53E3, 0x4FCA, 0x4E00, 0x77E5], priority = 1\<rparr>, \<lparr>cand_name = [0x77F3, 0x53E3, 0x4FCA, 0x4E00, 0x77E5], priority = 2\<rparr>, \<lparr>cand_name = [0x77F3, 0x53E3, 0x4FCA, 0x4E00, 0x77E5], priority = 4\<rparr>, \<lparr>cand_name = [0x77F3, 0x53E3], priority = 4\<rparr>]
     \<and> [\<lparr>cand_name = [0x77F3, 0x53E3, 0x4FCA, 0x4E00, 0x77E5], priority = 1\<rparr>, \<lparr>cand_name = [0x77F3, 0x53E3, 0x4FCA, 0x4E00, 0x77E5], priority = 2\<rparr>, \<lparr>cand_name = [0x77F3, 0x53E3, 0x4FCA, 0x4E00, 0x77E5], priority = 4\<rparr>, \<lparr>cand_name = [0x77F3, 0x53E3], priority = 4\<rparr>] \<noteq> []
     \<and> winner [\<lparr>cand_name = [0x77F3, 0x53E3, 0x4FCA, 0x4E00, 0x77E5], priority = 1\<rparr>, \<lparr>cand_name = [0x77F3, 0x53E3, 0x4FCA, 0x4E00, 0x77E5], priority = 2\<rparr>, \<lparr>cand_name = [0x77F3, 0x53E3, 0x4FCA, 0x4E00, 0x77E5], priority = 4\<rparr>, \<lparr>cand_name = [0x77F3, 0x53E3], priority = 4\<rparr>] = [0x77F3, 0x53E3, 0x4FCA, 0x4E00, 0x77E5] \<and> length [0x77F3, 0x53E3, 0x4FCA, 0x4E00, 0x77E5] = 5
     \<and> \<lparr>cand_name = [0x77F3, 0x53E3], priority = 4\<rparr> \<in> set [\<lparr>cand_name = [0x77F3, 0x53E3, 0x4FCA, 0x4E00, 0x77E5], priority = 1\<rparr>, \<lparr>cand_name = [0x77F3, 0x53E3, 0x4FCA, 0x4E00, 0x77E5], priority = 2\<rparr>, \<lparr>cand_name = [0x77F3, 0x53E3, 0x4FCA, 0x4E00, 0x77E5], priority = 4\<rparr>, \<lparr>cand_name = [0x77F3, 0x53E3], priority = 4\<rparr>]
     \<and> length [0x77F3, 0x53E3] \<le> 3 \<and> prefix [0x77F3, 0x53E3] [0x77F3, 0x53E3, 0x4FCA, 0x4E00, 0x77E5]
     \<and> plaintiffLawyer info = Some [0x77F3, 0x53E3, 0x4FCA, 0x4E00]"
proof -
  from counsel_trailing_character_trimmed[of exCfg decimal exTrimText] obtain info cands where
    i: "extractInfoFromText exCfg decimal exTrimText = Some info"
      "lawyerCandidates exCfg (normalizeText exTrimText) = Some cands"
      "cands \<noteq> [] \<longrightarrow>
         plaintiffLawyer info =
           Some (if length (winner cands) = 5
                    \<and> (\<exists>c\<in>set cands. length (cand_name c) \<le> 3 \<and> prefix (cand_name c) (winner cands))
                 then take 4 (winner cands) else winner cands)"
    by blast
  from i(2) have cands: "cands = [\<lparr>cand_name = [0x77F3, 0x53E3, 0x4FCA, 0x4E00, 0x77E5], priority = 1\<rparr>, \<lparr>cand_name = [0x77F3, 0x53E3, 0x4FCA, 0x4E00, 0x77E5], priority = 2\<rparr>, \<lparr>cand_name = [0x77F3, 0x53E3, 0x4FCA, 0x4E00, 0x77E5], priority = 4\<rparr>, \<lparr>cand_name = [0x77F3, 0x53E3], priority = 4\<rparr>]"
    by (simp add: exTrim_normal exTrim_candidates)
  have short: "\<exists>c\<in>set [\<lparr>cand_name = [0x77F3, 0x53E3, 0x4FCA, 0x4E00, 0x77E5], priority = 1\<rparr>, \<lparr>cand_name = [0x77F3, 0x53E3, 0x4FCA, 0x4E00, 0x77E5], priority = 2\<rparr>, \<lparr>cand_name = [0x77F3, 0x53E3, 0x4FCA, 0x4E00, 0x77E5], priority = 4\<rparr>, \<lparr>cand_name = [0x77F3, 0x53E3], priority = 4\<rparr>]. length (cand_name c) \<le> 3 \<and> prefix (cand_name c) [0x77F3, 0x53E3, 0x4FCA, 0x4E00, 0x77E5]"
    by simp
  from i(3) cands short have "plaintiffLawyer info = Some [0x77F3, 0x53E3, 0x4FCA, 0x4E00]"
    by (simp add: exTrim_winner)
  with i(1) i(2) cands exTrim_winner show ?thesis by simp
qed

text \<open>
  Claim C8 as stated fails when the shorter candidate has four characters: the
  winner \<open>\u77f3\u53e3\u4fca\u4e00\u77e5\<close> has five characters, the collected candidate \<open>\u77f3\u53e3\u4fca\u4e00\<close> is a strict
  prefix of it, and the result is the untrimmed winner.
\<close>

theorem counsel_four_character_prefix_counterexample:
  "lawyerCandidates exCfg (normalizeText exNoTrimText) = Some [\<lparr>cand_name = [0x77F3, 0x53E3, 0x4FCA, 0x4E00, 0x77E5], priority = 1\<rparr>, \<lparr>cand_name = [0x77F3, 0x53E3, 0x4FCA, 0x4E00, 0x77E5], priority = 2\<rparr>, \<lparr>cand_name = [0x77F3, 0x53E3, 0x4FCA, 0x4E00], priority = 3\<rparr>, \<lparr>cand_name = [0x77F3, 0x53E3, 0x4FCA, 0x4E00, 0x77E5], priority = 4\<rparr>, \<lparr>cand_name = [0x77F3, 0x53E3, 0x4FCA, 0x4E00], priority = 4\<rparr>]
   \<and> winner [\<lparr>cand_name = [0x77F3, 0x53E3, 0x4FCA, 0x4E00, 0x77E5], priority = 1\<rparr>, \<lparr>cand_name = [0x77F3, 0x53E3, 0x4FCA, 0x4E00, 0x77E5], priority = 2\<rparr>, \<lparr>cand_name = [0x77F3, 0x53E3, 0x4FCA, 0x4E00], priority = 3\<rparr>, \<lparr>cand_name = [0x77F3, 0x53E3, 0x4FCA, 0x4E00, 0x77E5], priority = 4\<rparr>, \<lparr>cand_name = [0x77F3, 0x53E3, 0x4FCA, 0x4E00], priority = 4\<rparr>] = [0x77F3, 0x53E3, 0x4FCA, 0x4E00, 0x77E5] \<and> length [0x77F3, 0x53E3, 0x4FCA, 0x4E00, 0x77E5] = 5
   \<and> \<lparr>cand_name = [0x77F3, 0x53E3, 0x4FCA, 0x4E00], priority = 3\<rparr> \<in> set [\<lparr>cand_name = [0x77F3, 0x53E3, 0x4FCA, 0x4E00, 0x77E5], priority = 1\<rparr>, \<lparr>cand_name = [0x77F3, 0x53E3, 0x4FCA, 0x4E00, 0x77E5], priority = 2\<rparr>, \<lparr>cand_name = [0x77F3, 0x53E3, 0x4FCA, 0x4E00], priority = 3\<rparr>, \<lparr>cand_name = [0x77F3, 0x53E3, 0x4FCA, 0x4E00, 0x77E5], priority = 4\<rparr>, \<lparr>cand_name = [0x77F3, 0x53E3, 0x4FCA, 0x4E00], priority = 4\<rparr>]
   \<and> strict_prefix [0x77F3, 0x53E3, 0x4FCA, 0x4E00] [0x77F3, 0x53E3, 0x4FCA, 0x4E00, 0x77E5]
   \<and> map_option plaintiffLawyer (extractInfoFromText exCfg decimal exNoTrimText) = Some (Some [0x77F3, 0x53E3, 0x4FCA, 0x4E00, 0x77E5])
   \<and> [0x77F3, 0x53E3, 0x4FCA, 0x4E00, 0x77E5] \<noteq> take 4 [0x77F3, 0x53E3, 0x4FCA, 0x4E00, 0x77E5]"
proof -
  from extractInfoFromText_fields[of exCfg decimal exNoTrimText] obtain info lawyer where
    i: "extractInfoFromText exCfg decimal exNoTrimText = Some info"
      "extractLawyer exCfg (normalizeText exNoTrimText) = Some lawyer" "plaintiffLawyer info = lawyer"
    by blast
  have w: "winner [\<lparr>cand_name = [0x77F3, 0x53E3, 0x4FCA, 0x4E00, 0x77E5], priority = 1\<rparr>, \<lparr>cand_name = [0x77F3, 0x53E3, 0x4FCA, 0x4E00, 0x77E5], priority = 2\<rparr>, \<lparr>cand_name = [0x77F3, 0x53E3, 0x4FCA, 0x4E00], priority = 3\<rparr>, \<lparr>cand_name = [0x77F3, 0x53E3, 0x4FCA, 0x4E00, 0x77E5], priority = 4\<rparr>, \<lparr>cand_name = [0x77F3, 0x53E3, 0x4FCA, 0x4E00], priority = 4\<rparr>] = [0x77F3, 0x53E3, 0x4FCA, 0x4E00, 0x77E5]" by (rule exNoTrim_winner)
  have "chooseLawyer [\<lparr>cand_name = [0x77F3, 0x53E3, 0x4FCA, 0x4E00, 0x77E5], priority = 1\<rparr>, \<lparr>cand_name = [0x77F3, 0x53E3, 0x4FCA, 0x4E00, 0x77E5], priority = 2\<rparr>, \<lparr>cand_name = [0x77F3, 0x53E3, 0x4FCA, 0x4E00], priority = 3\<rparr>, \<lparr>cand_name = [0x77F3, 0x53E3, 0x4FCA, 0x4E00, 0x77E5], priority = 4\<rparr>, \<lparr>cand_name = [0x77F3, 0x53E3, 0x4FCA, 0x4E00], priority = 4\<rparr>] = [0x77F3, 0x53E3, 0x4FCA, 0x4E00, 0x77E5]"
    unfolding chooseLawyer_eq w by simp
  with i(2) have "lawyer = Some [0x77F3, 0x53E3, 0x4FCA, 0x4E00, 0x77E5]"
    by (simp add: extractLawyer_def exNoTrim_normal exNoTrim_candidates)
  with i(1,3) have "map_option plaintiffLawyer (extractInfoFromText exCfg decimal exNoTrimText) = Some (Some [0x77F3, 0x53E3, 0x4FCA, 0x4E00, 0x77E5])"
    by simp
  then show ?thesis
    using w by (simp add: exNoTrim_normal exNoTrim_candidates strict_prefix_def)
qed


end
